theory Spec2Isabelle
  imports Main "HOL-Library.Word"
begin

unbundle bit_operations_syntax

section \<open>Bytes, errors and byte streams\<close>

text \<open>
  Go's \<^verbatim>\<open>byte\<close> is an unsigned 8-bit integer whose arithmetic wraps, \<^verbatim>\<open>int32\<close> and
  \<^verbatim>\<open>int64\<close> are 32- and 64-bit words read as two's complement where the code
  compares them. Go's \<^verbatim>\<open>int\<close> holds lengths, positions and ordinals that stay far
  from its bounds, and is modelled by \<^typ>\<open>int\<close>.
\<close>

type_synonym byte = "8 word"
type_synonym int32 = "32 word"
type_synonym int64 = "64 word"

text \<open>
  Every way the Go code stops: a \<^verbatim>\<open>panic\<close> (with its message; run-time panics such as
  an index out of range included), an error passed up from an input stream, and the
  errors that \<^verbatim>\<open>newBlockTreeTermsReader\<close> builds with \<^verbatim>\<open>errors.New(fmt.Sprintf(...))\<close>,
  one constructor per message, carrying the numbers or the name the message prints.
\<close>

datatype error =
    Panic string
  | IOErr string
  | InvalidNumFields int
  | MismatchedVersion int int
  | InvalidDocCount int int
  | InvalidSumDocFreq int int
  | InvalidSumTotalTermFreq int int
  | DuplicateField string

text \<open>The errors that describe a corrupt index: the ones built from a message.\<close>

fun isCorruptIndexError :: "error \<Rightarrow> bool" where
  "isCorruptIndexError (Panic m) = False"
| "isCorruptIndexError (IOErr m) = False"
| "isCorruptIndexError e = True"

text \<open>Whether the error's message prints the given field name.\<close>

fun mentionsField :: "error \<Rightarrow> string \<Rightarrow> bool" where
  "mentionsField (DuplicateField n) f = (n = f)"
| "mentionsField e f = False"

text \<open>
  Modelled from the spec: the variable-length integers of the \<^verbatim>\<open>store\<close> package, which
  is not among the sources (``vInt / vLong: variable-length unsigned integers, 7 payload
  bits per byte, MSB = continuation'', at most 5 bytes for a vInt and 9 for a vLong).
  \<open>readVarint n bs p\<close> decodes at most \<open>n\<close> bytes of \<open>bs\<close> from position \<open>p\<close> and returns
  the value with the position after it.
\<close>

fun readVarint :: "nat \<Rightarrow> byte list \<Rightarrow> nat \<Rightarrow> error + (nat \<times> nat)" where
  "readVarint 0 bs p = Inl (IOErr ''invalid variable-length integer'')"
| "readVarint (Suc n) bs p =
     (if length bs \<le> p then Inl (IOErr ''read past EOF'')
      else if bs ! p AND 0x80 \<noteq> 0 then
        (case readVarint n bs (Suc p) of
           Inl e \<Rightarrow> Inl e
         | Inr (v, q) \<Rightarrow> Inr (unat (bs ! p AND 0x7F) + 128 * v, q))
      else Inr (unat (bs ! p), Suc p))"

text \<open>
  Modelled from the spec: \<^verbatim>\<open>store.ByteArrayDataInput\<close>, the in-memory byte cursor
  (\<^verbatim>\<open>Reset\<close>, \<^verbatim>\<open>Rewind\<close>, \<^verbatim>\<open>ReadByte\<close>, \<^verbatim>\<open>ReadVInt\<close>, \<^verbatim>\<open>ReadVLong\<close>, \<^verbatim>\<open>SkipBytes\<close> and the
  public position \<^verbatim>\<open>Pos\<close>).
\<close>

record ByteArrayDataInput =
  buf :: "byte list"
  Pos :: nat

definition Reset :: "byte list \<Rightarrow> ByteArrayDataInput" where
  "Reset bs = \<lparr>buf = bs, Pos = 0\<rparr>"

definition Rewind :: "ByteArrayDataInput \<Rightarrow> ByteArrayDataInput" where
  "Rewind r = r\<lparr>Pos := 0\<rparr>"

definition ReadByte :: "ByteArrayDataInput \<Rightarrow> error + (byte \<times> ByteArrayDataInput)" where
  "ReadByte r =
     (if length (buf r) \<le> Pos r then Inl (IOErr ''read past EOF'')
      else Inr (buf r ! Pos r, r\<lparr>Pos := Suc (Pos r)\<rparr>))"

definition ReadVInt :: "ByteArrayDataInput \<Rightarrow> error + (int32 \<times> ByteArrayDataInput)" where
  "ReadVInt r =
     (case readVarint 5 (buf r) (Pos r) of
        Inl e \<Rightarrow> Inl e
      | Inr (v, q) \<Rightarrow> Inr (word_of_nat v, r\<lparr>Pos := q\<rparr>))"

definition ReadVLong :: "ByteArrayDataInput \<Rightarrow> error + (int64 \<times> ByteArrayDataInput)" where
  "ReadVLong r =
     (case readVarint 9 (buf r) (Pos r) of
        Inl e \<Rightarrow> Inl e
      | Inr (v, q) \<Rightarrow> Inr (word_of_nat v, r\<lparr>Pos := q\<rparr>))"

definition SkipBytes :: "ByteArrayDataInput \<Rightarrow> int \<Rightarrow> ByteArrayDataInput" where
  "SkipBytes r n = r\<lparr>Pos := nat (int (Pos r) + n)\<rparr>"

text \<open>
  \<^verbatim>\<open>asInt(r.ReadVInt())\<close> with the error dropped (\<^verbatim>\<open>n, _ = ...\<close>): the value kept beside
  an error is Go's zero value, and the cursor stays where it was.
\<close>

definition ReadVIntIgnoreErr :: "ByteArrayDataInput \<Rightarrow> int \<times> ByteArrayDataInput" where
  "ReadVIntIgnoreErr r =
     (case ReadVInt r of Inl e \<Rightarrow> (0, r) | Inr (v, r') \<Rightarrow> (sint v, r'))"

definition ReadByteIgnoreErr :: "ByteArrayDataInput \<Rightarrow> byte \<times> ByteArrayDataInput" where
  "ReadByteIgnoreErr r =
     (case ReadByte r of Inl e \<Rightarrow> (0, r) | Inr (b, r') \<Rightarrow> (b, r'))"

definition ReadVLongIgnoreErr :: "ByteArrayDataInput \<Rightarrow> int64 \<times> ByteArrayDataInput" where
  "ReadVLongIgnoreErr r =
     (case ReadVLong r of Inl e \<Rightarrow> (0, r) | Inr (v, r') \<Rightarrow> (v, r'))"

text \<open>
  Modelled from the spec: \<^verbatim>\<open>store.IndexInput\<close>, the seekable stream over a file (a
  ``random-access, seekable, cloneable byte stream with var-int / var-long / long /
  byte-array primitives''). A clone shares the bytes and has a position of its own, so
  an input is its file's bytes with a position.
\<close>

record IndexInput =
  fileBytes :: "byte list"
  filePos :: nat

definition inSeek :: "IndexInput \<Rightarrow> int \<Rightarrow> IndexInput" where
  "inSeek i p = i\<lparr>filePos := nat p\<rparr>"

definition inReadVInt :: "IndexInput \<Rightarrow> error + (int32 \<times> IndexInput)" where
  "inReadVInt i =
     (case readVarint 5 (fileBytes i) (filePos i) of
        Inl e \<Rightarrow> Inl e
      | Inr (v, q) \<Rightarrow> Inr (word_of_nat v, i\<lparr>filePos := q\<rparr>))"


text \<open>\<^verbatim>\<open>ReadBytes(buf)\<close> fills the whole of \<^verbatim>\<open>buf\<close>: it reads \<^verbatim>\<open>len(buf)\<close> bytes.\<close>

definition inReadBytes :: "IndexInput \<Rightarrow> nat \<Rightarrow> error + (byte list \<times> IndexInput)" where
  "inReadBytes i n =
     (if length (fileBytes i) < filePos i + n then Inl (IOErr ''read past EOF'')
      else Inr (take n (drop (filePos i) (fileBytes i)), i\<lparr>filePos := filePos i + n\<rparr>))"


text \<open>Sequencing of steps that may fail: the first error ends the run.\<close>

definition bindE :: "error + 'a \<Rightarrow> ('a \<Rightarrow> error + 'b) \<Rightarrow> error + 'b" where
  "bindE m f = (case m of Inl e \<Rightarrow> Inl e | Inr x \<Rightarrow> f x)"

section \<open>The FST runtime and the collaborators\<close>

text \<open>
  Modelled from the spec: \<^verbatim>\<open>util.Arc\<close> and \<^verbatim>\<open>util.FST\<close>, which are not among the sources.
  An arc carries ``a label (0..255), an output (byte-sequence, typically empty), a
  \<^verbatim>\<open>next_final_output\<close>, and a terminal flag''; \<open>arcTarget\<close> stands for the topology that
  \<^verbatim>\<open>FindTargetArc\<close> needs. An output is an \<^verbatim>\<open>interface{}\<close> holding a \<^verbatim>\<open>[]byte\<close>, \<open>None\<close> is
  the \<^verbatim>\<open>nil\<close> interface of the zero value \<^verbatim>\<open>Arc{}\<close>. The FST itself is its first arc and
  its two lookup functions: \<open>FindTargetArc label follow\<close> is an error, no arc, or the arc
  that the Go function writes to the slot it is given and returns; \<open>GetOutput input\<close> is
  \<^verbatim>\<open>util.GetFSTOutput(fst, input)\<close>, an error (its message), \<^verbatim>\<open>nil\<close>, or the output of the
  path that spells \<open>input\<close>.
\<close>

record Arc =
  Label :: int
  Output :: "byte list option"
  NextFinalOutput :: "byte list option"
  IsFinal :: bool
  arcTarget :: nat

definition zeroArc :: Arc where
  "zeroArc = \<lparr>Label = 0, Output = None, NextFinalOutput = None, IsFinal = False, arcTarget = 0\<rparr>"

record FST =
  FirstArc :: Arc
  FindTargetArc :: "int \<Rightarrow> Arc \<Rightarrow> error + Arc option"
  GetOutput :: "byte list \<Rightarrow> string + byte list option"

text \<open>
  Modelled from the spec: the output algebra \<^verbatim>\<open>util.ByteSequenceOutputsSingleton()\<close>
  (``\<^verbatim>\<open>no_output = empty\<close>, \<^verbatim>\<open>add(a, b) = a \<parallel> b\<close>''). The callers assert the result to
  \<^verbatim>\<open>[]byte\<close>; a \<^verbatim>\<open>nil\<close> operand is a panic.
\<close>

definition outputsAdd :: "byte list \<Rightarrow> byte list option \<Rightarrow> error + byte list" where
  "outputsAdd a b =
     (case b of
        None \<Rightarrow> Inl (Panic ''interface conversion: interface is nil, not []uint8'')
      | Some bs \<Rightarrow> Inr (a @ bs))"

text \<open>
  The postings reader is a collaborator (\<^verbatim>\<open>PostingsReaderBase\<close>), given by the three hooks
  the terms reader calls; \<^verbatim>\<open>BlockTermState\<close> has the two fields the terms reader sets.
\<close>

record BlockTermState =
  termBlockOrd :: int
  totalTermFreq :: int

record PostingsReaderBase =
  Init :: "IndexInput \<Rightarrow> IndexInput"
  NewTermState :: BlockTermState
  ReadTermsBlock :: "IndexInput \<Rightarrow> BlockTermState \<Rightarrow> IndexInput \<times> BlockTermState"

datatype IndexOptions =
    INDEX_OPT_DOCS_ONLY
  | INDEX_OPT_DOCS_AND_FREQS
  | INDEX_OPT_DOCS_AND_FREQS_AND_POSITIONS
  | INDEX_OPT_DOCS_AND_FREQS_AND_POSITIONS_AND_OFFSETS

record FieldInfo =
  name :: string
  indexOptions :: IndexOptions

definition zeroFieldInfo :: FieldInfo where
  "zeroFieldInfo = \<lparr>name = [], indexOptions = INDEX_OPT_DOCS_ONLY\<rparr>"

section \<open>The field reader\<close>

definition BTT_OUTPUT_FLAGS_NUM_BITS :: nat where "BTT_OUTPUT_FLAGS_NUM_BITS = 2"
definition BTT_OUTPUT_FLAG_IS_FLOOR :: int64 where "BTT_OUTPUT_FLAG_IS_FLOOR = 1"
definition BTT_OUTPUT_FLAG_HAS_TERMS :: int64 where "BTT_OUTPUT_FLAG_HAS_TERMS = 2"

text \<open>
  The parts of the owning \<^verbatim>\<open>BlockTreeTermsReader\<close> that a field reader and its cursors
  reach through the embedded pointer: the segment name, the \<^verbatim>\<open>tim\<close> input (cloned by
  each cursor) and the postings reader.
\<close>

record Owner =
  ownerSegment :: string
  ownerIn :: IndexInput
  ownerPostings :: PostingsReaderBase

record FieldReader =
  owner :: "Owner option"
  numTerms :: int
  fieldInfo :: FieldInfo
  sumTotalTermFreq :: int
  sumDocFreq :: int
  docCount :: int
  indexStartFP :: int
  rootBlockFP :: int64
  rootCode :: "byte list"
  index :: "FST option"

text \<open>Go's zero value of \<^verbatim>\<open>FieldReader\<close>, which a map returns for a key it does not hold.\<close>

definition zeroFieldReader :: FieldReader where
  "zeroFieldReader =
     \<lparr>owner = None, numTerms = 0, fieldInfo = zeroFieldInfo, sumTotalTermFreq = 0,
      sumDocFreq = 0, docCount = 0, indexStartFP = 0, rootBlockFP = 0, rootCode = [],
      index = None\<rparr>"

text \<open>
  \<^verbatim>\<open>newFieldReader\<close>. \<open>loadFST\<close> is \<^verbatim>\<open>util.LoadFST\<close> (not among the sources) applied to
  the clone of \<^verbatim>\<open>indexIn\<close> positioned at \<^verbatim>\<open>indexStartFP\<close>; \<open>indexIn = None\<close> is the \<^verbatim>\<open>nil\<close>
  input of a reader opened without its index.
\<close>

definition newFieldReader ::
  "(IndexInput \<Rightarrow> error + FST) \<Rightarrow> Owner \<Rightarrow> FieldInfo \<Rightarrow> int \<Rightarrow> byte list \<Rightarrow> int \<Rightarrow> int \<Rightarrow> int \<Rightarrow>
     int \<Rightarrow> IndexInput option \<Rightarrow> error + FieldReader" where
  "newFieldReader loadFST own fi nTerms rCode sttf sdf dc startFP indexIn =
     (if nTerms \<le> 0 then Inl (Panic ''assert fail'')
      else
        let r = \<lparr>owner = Some own, numTerms = nTerms, fieldInfo = fi, sumTotalTermFreq = sttf,
                 sumDocFreq = sdf, docCount = dc, indexStartFP = startFP, rootBlockFP = 0,
                 rootCode = rCode, index = None\<rparr>
        in bindE (ReadVLong (Reset rCode)) (\<lambda>(n, rd).
             let r1 = r\<lparr>rootBlockFP := drop_bit BTT_OUTPUT_FLAGS_NUM_BITS n\<rparr>
             in case indexIn of
                  None \<Rightarrow> Inr r1
                | Some inp \<Rightarrow>
                    bindE (loadFST (inSeek inp startFP)) (\<lambda>t. Inr (r1\<lparr>index := Some t\<rparr>))))"

section \<open>The dictionary reader\<close>



record BlockTreeTermsReader =
  tim_in :: IndexInput
  postingsReader :: PostingsReaderBase
  fieldsByName :: "string \<rightharpoonup> FieldReader"
  dirOffset :: int64
  indexDirOffset :: int64
  segment :: string
  version :: int

text \<open>
  What the constructor is given from outside the sources: the directory's \<^verbatim>\<open>OpenInput\<close>,
  \<^verbatim>\<open>codec.CheckHeader\<close> (the version it finds, and the input behind the header),
  \<^verbatim>\<open>util.LoadFST\<close>, the field infos by number (a Go map: the zero \<^verbatim>\<open>FieldInfo\<close> for a
  number it does not hold) and the segment's name and document count.
\<close>

record Env =
  OpenInput :: "string \<Rightarrow> error + IndexInput"
  CheckHeader :: "IndexInput \<Rightarrow> string \<Rightarrow> int \<Rightarrow> int \<Rightarrow> error + (int32 \<times> IndexInput)"
  LoadFST :: "IndexInput \<Rightarrow> error + FST"
  byNumber :: "int \<rightharpoonup> FieldInfo"
  infoName :: string
  infoDocCount :: int





text \<open>
  One directory entry, as the loop of \<^verbatim>\<open>newBlockTreeTermsReader\<close> reads it from the
  \<^verbatim>\<open>tim\<close> input: the field number, \<^verbatim>\<open>numTerms\<close>, the root code, \<^verbatim>\<open>sumTotalTermFreq\<close>
  (\<open>-1\<close> without a read for a field indexed \<^verbatim>\<open>DOCS_ONLY\<close>), \<^verbatim>\<open>sumDocFreq\<close> and \<^verbatim>\<open>docCount\<close>.
  \<^verbatim>\<open>make([]byte, numBytes)\<close> panics on a negative length.
\<close>

record DirEntry =
  deField :: int
  deNumTerms :: int
  deRootCode :: "byte list"
  deFieldInfo :: FieldInfo
  deSumTotalTermFreq :: int
  deSumDocFreq :: int
  deDocCount :: int


text \<open>The three checks on the numbers of an entry, in the order of the source.\<close>

definition checkDirEntry :: "Env \<Rightarrow> DirEntry \<Rightarrow> error option" where
  "checkDirEntry env d =
     (if deDocCount d < 0 \<or> infoDocCount env < deDocCount d then
        Some (InvalidDocCount (deDocCount d) (infoDocCount env))
      else if deSumDocFreq d < deDocCount d then
        Some (InvalidSumDocFreq (deSumDocFreq d) (deDocCount d))
      else if deSumTotalTermFreq d \<noteq> -1 \<and> deSumTotalTermFreq d < deSumDocFreq d then
        Some (InvalidSumTotalTermFreq (deSumTotalTermFreq d) (deSumDocFreq d))
      else None)"








text \<open>
  \<^verbatim>\<open>Terms\<close>: \<^verbatim>\<open>ans := r.fields[field]; return &ans\<close>. The map gives the zero \<^verbatim>\<open>FieldReader\<close>
  for a name it does not hold, and the address of the local copy is never \<^verbatim>\<open>nil\<close>:
  \<open>None\<close> stands for the \<^verbatim>\<open>nil\<close> result.
\<close>

definition Terms :: "BlockTreeTermsReader \<Rightarrow> string \<Rightarrow> FieldReader option" where
  "Terms r field =
     Some (case fieldsByName r field of None \<Rightarrow> zeroFieldReader | Some ans \<Rightarrow> ans)"

section \<open>Frames\<close>

datatype SeekStatus = SEEK_STATUS_END | SEEK_STATUS_FOUND | SEEK_STATUS_NOT_FOUND

text \<open>
  \<^verbatim>\<open>segmentTermsEnumFrame\<close>. The field \<open>arc\<close> is a pointer into the cursor's \<^verbatim>\<open>arcs\<close>:
  the model keeps the index of the slot, \<open>None\<close> for \<^verbatim>\<open>nil\<close>. The embedded pointer to the
  cursor is left out: an operation that reaches the cursor through it (\<^verbatim>\<open>f.term\<close>,
  \<^verbatim>\<open>f.termExists\<close>, \<^verbatim>\<open>f.in\<close>) takes those parts and returns them.
\<close>

record Frame =
  ord :: int
  hasTerms :: bool
  hasTermsOrig :: bool
  isFloor :: bool
  arc :: "nat option"
  fp :: int64
  fpOrig :: int64
  fpEnd :: int64
  suffixBytes :: "byte list"
  suffixesReader :: ByteArrayDataInput
  statBytes :: "byte list"
  statsReader :: ByteArrayDataInput
  floorData :: "byte list"
  floorDataReader :: ByteArrayDataInput
  prefix :: int
  entCount :: int
  nextEnt :: int
  isLastInFloor :: bool
  isLeafBlock :: bool
  lastSubFP :: int64
  nextFloorLabel :: int
  numFollowFloorBlocks :: int
  metaDataUpto :: int
  state :: BlockTermState
  startBytePos :: int
  suffix :: int
  subCode :: int

definition newFrame :: "PostingsReaderBase \<Rightarrow> int \<Rightarrow> Frame" where
  "newFrame pr k =
     \<lparr>ord = k, hasTerms = False, hasTermsOrig = False, isFloor = False, arc = None,
      fp = 0, fpOrig = 0, fpEnd = 0,
      suffixBytes = replicate 128 0, suffixesReader = \<lparr>buf = [], Pos = 0\<rparr>,
      statBytes = replicate 64 0, statsReader = \<lparr>buf = [], Pos = 0\<rparr>,
      floorData = replicate 32 0, floorDataReader = \<lparr>buf = [], Pos = 0\<rparr>,
      prefix = 0, entCount = 0, nextEnt = 0, isLastInFloor = False, isLeafBlock = False,
      lastSubFP = 0, nextFloorLabel = 0, numFollowFloorBlocks = 0, metaDataUpto = 0,
      state = (NewTermState pr)\<lparr>totalTermFreq := -1\<rparr>,
      startBytePos = 0, suffix = 0, subCode = 0\<rparr>"

text \<open>
  \<^verbatim>\<open>setFloorData(in, source)\<close>: the bytes of \<^verbatim>\<open>source\<close> from \<^verbatim>\<open>in.Pos\<close> are copied to the front
  of \<^verbatim>\<open>floorData\<close> (a new buffer of exactly that length when the old one is shorter), and
  the first two values are read from it with the errors dropped.
\<close>

definition setFloorData :: "ByteArrayDataInput \<Rightarrow> byte list \<Rightarrow> Frame \<Rightarrow> Frame" where
  "setFloorData rd source f =
     (let src = drop (Pos rd) source;
          numBytes = length src;
          fd = (if length (floorData f) < numBytes then replicate numBytes 0 else floorData f);
          fd' = src @ drop numBytes fd;
          (n, r1) = ReadVIntIgnoreErr (Reset fd');
          (b, r2) = ReadByteIgnoreErr r1
      in f\<lparr>floorData := fd', floorDataReader := r2,
            numFollowFloorBlocks := n, nextFloorLabel := uint b\<rparr>)"

definition rewind :: "Frame \<Rightarrow> Frame" where
  "rewind f =
     (let f1 = f\<lparr>fp := fpOrig f, nextEnt := -1, hasTerms := hasTermsOrig f\<rparr>
      in if isFloor f1 then
           (let (n, r1) = ReadVIntIgnoreErr (Rewind (floorDataReader f1));
                (b, r2) = ReadByteIgnoreErr r1
            in f1\<lparr>floorDataReader := r2, numFollowFloorBlocks := n, nextFloorLabel := uint b\<rparr>)
         else f1)"

text \<open>
  \<^verbatim>\<open>scanToFloorFrame(target)\<close>. The loop over the floor data is commented out in the source,
  behind \<^verbatim>\<open>panic("not implemented yet")\<close>: the function returns with the frame as it
  was, or panics.
\<close>

definition scanToFloorFrame :: "Frame \<Rightarrow> byte list \<Rightarrow> error + Frame" where
  "scanToFloorFrame f target =
     (if \<not> isFloor f \<or> int (length target) \<le> prefix f then Inr f
      else if prefix f < 0 then Inl (Panic ''index out of range'')
      else
        let targetLabel = uint (target ! nat (prefix f))
        in if targetLabel < nextFloorLabel f then Inr f
           else if numFollowFloorBlocks f = 0 then Inl (Panic ''assert fail'')
           else Inl (Panic ''not implemented yet''))"

text \<open>
  \<^verbatim>\<open>loadBlock\<close> on the cursor's clone of the \<^verbatim>\<open>tim\<close> input. The result is a panic
  (\<open>Inl\<close>) or the error the function returns (\<open>Inr\<close>, \<open>None\<close> for \<^verbatim>\<open>nil\<close>), with the input
  as the reads left it, the number of calls made on the input, and the frame.
  \<^verbatim>\<open>int(uint(code) >> 1)\<close> of a negative \<^verbatim>\<open>code\<close> is a number near \<open>2^63\<close>; a buffer of that
  length cannot be made. \<^verbatim>\<open>ReadBytes(f.suffixBytes)\<close> fills the whole buffer, which is
  never shorter than 128 bytes. The error of the second \<^verbatim>\<open>ReadVInt\<close> is overwritten
  unread, and the third returns \<^verbatim>\<open>nil\<close> for its error.
\<close>

definition loadStats ::
  "PostingsReaderBase \<Rightarrow> IndexInput \<Rightarrow> Frame \<Rightarrow> (error + error option) \<times> IndexInput \<times> nat \<times> Frame" where
  "loadStats pr i3 f4 =
     (case inReadVInt i3 of
        Inl e \<Rightarrow> (Inr None, i3, 5, f4)
      | Inr (nb, i4) \<Rightarrow>
          (let f4' = (if int (length (statBytes f4)) < sint nb
                      then f4\<lparr>statBytes := replicate (nat (sint nb)) 0\<rparr> else f4)
           in (case inReadBytes i4 (length (statBytes f4')) of
                 Inl e \<Rightarrow> (Inr (Some e), i4, 6, f4')
               | Inr (stb, i5) \<Rightarrow>
                   (let f5 = f4'\<lparr>statBytes := stb, statsReader := Reset stb, metaDataUpto := 0,
                               state := (state f4')\<lparr>termBlockOrd := 0\<rparr>,
                               nextEnt := 0, lastSubFP := -1\<rparr>;
                        r = ReadTermsBlock pr i5 (state f5)
                    in (Inr None, fst r, 7,
                        f5\<lparr>state := snd r, fpEnd := word_of_nat (filePos (fst r))\<rparr>)))))"

definition loadSuffixes ::
  "PostingsReaderBase \<Rightarrow> IndexInput \<Rightarrow> Frame \<Rightarrow> (error + error option) \<times> IndexInput \<times> nat \<times> Frame" where
  "loadSuffixes pr i1 f2 =
     (let r = (case inReadVInt i1 of Inl e \<Rightarrow> (0, i1) | Inr (v, i') \<Rightarrow> (sint v, i'));
          code2 = fst r;
          i2 = snd r;
          f3 = f2\<lparr>isLeafBlock := (code2 mod 2 \<noteq> 0)\<rparr>;
          numBytes = (code2 mod 2 ^ 64) div 2
      in if code2 < 0 then (Inl (Panic ''makeslice: len out of range''), i2, 3, f3)
         else
           (let f3' = (if int (length (suffixBytes f3)) < numBytes
                       then f3\<lparr>suffixBytes := replicate (nat numBytes) 0\<rparr> else f3)
            in (case inReadBytes i2 (length (suffixBytes f3')) of
                  Inl e \<Rightarrow> (Inr (Some e), i2, 4, f3')
                | Inr (sb, i3) \<Rightarrow>
                    loadStats pr i3 (f3'\<lparr>suffixBytes := sb, suffixesReader := Reset sb\<rparr>))))"

definition loadBlockFrom ::
  "PostingsReaderBase \<Rightarrow> IndexInput \<Rightarrow> Frame \<Rightarrow> (error + error option) \<times> IndexInput \<times> nat \<times> Frame" where
  "loadBlockFrom pr i f =
     (let i0 = inSeek i (sint (fp f))
      in (case inReadVInt i0 of
            Inl e \<Rightarrow> (Inr (Some e), i0, 2, f)
          | Inr (c1, i1) \<Rightarrow>
              (let code = sint c1;
                   f1 = f\<lparr>entCount := (code mod 2 ^ 64) div 2\<rparr>;
                   f2 = f1\<lparr>isLastInFloor := (code mod 2 \<noteq> 0)\<rparr>
               in if entCount f1 \<le> 0 then (Inl (Panic ''assert fail''), i1, 2, f1)
                  else if arc f2 \<noteq> None \<and> isLastInFloor f2 \<and> isFloor f2
                    then (Inl (Panic ''assert fail''), i1, 2, f2)
                  else loadSuffixes pr i1 f2)))"

text \<open>
  \<^verbatim>\<open>fillTerm\<close>, on the frame and the cursor's term: the term grows to
  \<^verbatim>\<open>prefix + suffix\<close> bytes when it is shorter and never shrinks; \<^verbatim>\<open>copy\<close> moves as many
  bytes as the shorter of its two slices holds. A slice expression out of bounds panics.
\<close>

definition fillTerm :: "Frame \<Rightarrow> byte list \<Rightarrow> error + byte list" where
  "fillTerm f t =
     (let termLength = prefix f + suffix f;
          t1 = (if int (length t) < termLength then t @ replicate (nat termLength - length t) 0 else t)
      in if prefix f < 0 \<or> suffix f < 0 then Inl (Panic ''slice bounds out of range'')
         else if startBytePos f < 0 \<or> int (length (suffixBytes f)) < startBytePos f
           then Inl (Panic ''slice bounds out of range'')
         else
           let src = take (nat (suffix f)) (drop (nat (startBytePos f)) (suffixBytes f))
           in Inr (take (nat (prefix f)) t1 @ src @ drop (nat (prefix f) + length src) t1))"

text \<open>\<^verbatim>\<open>prefixMatches\<close> (``used only by assert''): \<^verbatim>\<open>panic("not implemented yet")\<close>.\<close>

definition prefixMatches :: "Frame \<Rightarrow> byte list \<Rightarrow> error + bool" where
  "prefixMatches f target = Inl (Panic ''not implemented yet'')"

text \<open>
  The inner loop of \<^verbatim>\<open>scanToTermLeaf\<close>, which compares the bytes of one suffix with the
  target: it ends with the first \<^verbatim>\<open>cmp\<close> that is not zero, or with \<^verbatim>\<open>stop\<close>. The
  difference of two bytes is a byte: \<^verbatim>\<open>int(f.suffixBytes[bytePos] - target[targetPos])\<close>
  is between 0 and 255.
\<close>

function compareSuffix ::
  "byte list \<Rightarrow> byte list \<Rightarrow> int \<Rightarrow> int \<Rightarrow> int \<Rightarrow> int \<Rightarrow> error + (int \<times> bool)" where
  "compareSuffix sfx target termLen targetLimit targetPos bytePos =
     (if targetPos < targetLimit then
        (if bytePos < 0 \<or> int (length sfx) \<le> bytePos \<or> targetPos < 0
            \<or> int (length target) \<le> targetPos
         then Inl (Panic ''index out of range'')
         else
           let cmp = uint (sfx ! nat bytePos - target ! nat targetPos)
           in if cmp < 0 then Inr (cmp, False)
              else if 0 < cmp then Inr (cmp, False)
              else compareSuffix sfx target termLen targetLimit (targetPos + 1) (bytePos + 1))
      else if targetPos \<noteq> targetLimit then Inl (Panic ''assert fail'')
      else Inr (termLen - int (length target), True))"
  by pat_completeness auto
termination
  by (relation "measure (\<lambda>(sfx, target, termLen, targetLimit, targetPos, bytePos).
        nat (targetLimit - targetPos))") auto

lemma readVarint_advances:
  "readVarint n bs p = Inr (v, q) \<Longrightarrow> p < q \<and> q \<le> length bs"
proof (induction n arbitrary: p v q)
  case 0
  then show ?case by simp
next
  case (Suc n)
  show ?case
  proof (cases "length bs \<le> p")
    case True
    with Suc.prems show ?thesis by simp
  next
    case False
    note inside = this
    show ?thesis
    proof (cases "bs ! p AND 0x80 \<noteq> 0")
      case True
      with inside Suc.prems obtain w where rest: "readVarint n bs (Suc p) = Inr (w, q)"
        by (auto split: sum.splits prod.splits)
      from Suc.IH [OF rest] show ?thesis by simp
    next
      case False
      with inside Suc.prems show ?thesis by auto
    qed
  qed
qed

lemma ReadVInt_advances:
  assumes "ReadVInt r = Inr (v, rd)"
  shows "buf rd = buf r \<and> Pos r < Pos rd \<and> Pos rd \<le> length (buf r)"
proof -
  from assms obtain n where rn: "readVarint 5 (buf r) (Pos r) = Inr (n, Pos rd)"
    and b: "buf rd = buf r"
    by (auto simp: ReadVInt_def split: sum.splits prod.splits)
  from readVarint_advances [OF rn] b show ?thesis by simp
qed

lemma compareSuffix_returns:
  "compareSuffix sfx target termLen targetLimit targetPos bytePos = Inr r \<Longrightarrow>
     targetPos \<le> targetLimit"
proof (induction sfx target termLen targetLimit targetPos bytePos rule: compareSuffix.induct)
  case (1 sfx target termLen targetLimit targetPos bytePos)
  show ?case
  proof (cases "targetPos < targetLimit")
    case True
    then show ?thesis by simp
  next
    case False
    with "1.prems" show ?thesis
      by (simp split: if_splits)
  qed
qed

declare compareSuffix.simps [simp del]

text \<open>
  The loop over the entries of a leaf block (\<^verbatim>\<open>for { ... }\<close> in \<^verbatim>\<open>scanToTermLeaf\<close>), on the
  frame and the cursor's term; \<open>tExists\<close> is the cursor's \<^verbatim>\<open>termExists\<close>. An entry before
  the target goes on to the next entry, or ends the scan at the last one; the block's end
  fills the term twice when \<^verbatim>\<open>exactOnly\<close> (inside the loop and after it).
\<close>

definition scanLeafEnd :: "bool \<Rightarrow> Frame \<Rightarrow> byte list \<Rightarrow> (error + SeekStatus) \<times> Frame \<times> byte list" where
  "scanLeafEnd exactOnly f t =
     (if exactOnly then
        (case fillTerm f t of
           Inl e \<Rightarrow> (Inl e, f, t)
         | Inr t1 \<Rightarrow>
             (case fillTerm f t1 of
                Inl e \<Rightarrow> (Inl e, f, t1)
              | Inr t2 \<Rightarrow> (Inr SEEK_STATUS_END, f, t2)))
      else (Inr SEEK_STATUS_END, f, t))"

function scanLeafLoop ::
  "byte list \<Rightarrow> bool \<Rightarrow> bool \<Rightarrow> Frame \<Rightarrow> byte list \<Rightarrow> (error + SeekStatus) \<times> Frame \<times> byte list" where
  "scanLeafLoop target exactOnly tExists f t =
     (let f1 = f\<lparr>nextEnt := nextEnt f + 1\<rparr>
      in (case ReadVInt (suffixesReader f1) of
            Inl e \<Rightarrow> (Inl e, f1\<lparr>suffix := 0\<rparr>, t)
          | Inr (v, rd) \<Rightarrow>
              (let f2 = f1\<lparr>suffix := sint v, startBytePos := int (Pos rd),
                          suffixesReader := SkipBytes rd (sint v)\<rparr>;
                   termLen = prefix f2 + suffix f2;
                   targetLimit = (if int (length target) < termLen then int (length target)
                                  else termLen)
               in (case compareSuffix (suffixBytes f2) target termLen targetLimit (prefix f2)
                          (startBytePos f2) of
                     Inl e \<Rightarrow> (Inl e, f2, t)
                   | Inr (cmp, stop) \<Rightarrow>
                       if cmp < 0 then
                         (if nextEnt f2 = entCount f2 then scanLeafEnd exactOnly f2 t
                          else scanLeafLoop target exactOnly tExists f2 t)
                       else if 0 < cmp then (Inr SEEK_STATUS_NOT_FOUND, f2, t)
                       else if \<not> tExists then (Inl (Panic ''assert fail''), f2, t)
                       else (case fillTerm f2 t of
                               Inl e \<Rightarrow> (Inl e, f2, t)
                             | Inr t' \<Rightarrow> (Inr SEEK_STATUS_FOUND, f2, t'))))))"
  by pat_completeness auto
termination
proof (relation "measure (\<lambda>(target, exactOnly, tExists, f, t).
          length (buf (suffixesReader f)) - Pos (suffixesReader f))", goal_cases)
  case 1
  show ?case by simp
next
  case (2 target exactOnly tExists f t f1 x2 v rd f2 termLen targetLimit x2a cmp stop)
  from 2 have "ReadVInt (suffixesReader f) = Inr (v, rd)"
    by simp
  from ReadVInt_advances [OF this]
  have adv: "buf rd = buf (suffixesReader f)" "Pos (suffixesReader f) < Pos rd"
    "Pos rd \<le> length (buf (suffixesReader f))"
    by simp_all
  from 2 have "compareSuffix (suffixBytes f2) target termLen targetLimit (prefix f2)
                 (startBytePos f2) = Inr x2a"
    by simp
  then have "prefix f2 \<le> targetLimit"
    by (rule compareSuffix_returns)
  moreover from 2 have "prefix f2 = prefix f" "targetLimit \<le> prefix f + sint v"
    by simp_all
  ultimately have nonneg: "0 \<le> sint v"
    by simp
  from 2 have "suffixesReader f2 = SkipBytes rd (sint v)"
    by simp
  with adv nonneg show ?case
    by (simp add: SkipBytes_def)
qed

text \<open>
  \<^verbatim>\<open>scanToTermLeaf\<close>, on the frame, the cursor's term and the cursor's \<^verbatim>\<open>termExists\<close>.
  The call of \<^verbatim>\<open>prefixMatches\<close> stands before the loop.
\<close>

definition scanToTermLeaf ::
  "byte list \<Rightarrow> bool \<Rightarrow> Frame \<Rightarrow> byte list \<Rightarrow> bool \<Rightarrow>
     (error + SeekStatus) \<times> Frame \<times> byte list \<times> bool" where
  "scanToTermLeaf target exactOnly f t tExists =
     (if nextEnt f = -1 then (Inl (Panic ''assert fail''), f, t, tExists)
      else
        (let f1 = f\<lparr>subCode := 0\<rparr>
         in if nextEnt f1 = entCount f1 then
              (if exactOnly then
                 (case fillTerm f1 t of
                    Inl e \<Rightarrow> (Inl e, f1, t, True)
                  | Inr t' \<Rightarrow> (Inr SEEK_STATUS_END, f1, t', True))
               else (Inr SEEK_STATUS_END, f1, t, True))
            else
              (case prefixMatches f1 target of
                 Inl e \<Rightarrow> (Inl e, f1, t, True)
               | Inr m \<Rightarrow>
                   if \<not> m then (Inl (Panic ''assert fail''), f1, t, True)
                   else (case scanLeafLoop target exactOnly True f1 t of
                           (r, f2, t2) \<Rightarrow> (r, f2, t2, True)))))"

definition scanToTermNonLeaf ::
  "byte list \<Rightarrow> bool \<Rightarrow> Frame \<Rightarrow> byte list \<Rightarrow> bool \<Rightarrow>
     (error + SeekStatus) \<times> Frame \<times> byte list \<times> bool" where
  "scanToTermNonLeaf target exactOnly f t tExists =
     (Inl (Panic ''not implemented yet''), f, t, tExists)"

definition scanToTerm ::
  "byte list \<Rightarrow> bool \<Rightarrow> Frame \<Rightarrow> byte list \<Rightarrow> bool \<Rightarrow>
     (error + SeekStatus) \<times> Frame \<times> byte list \<times> bool" where
  "scanToTerm target exactOnly f t tExists =
     (if isLeafBlock f then scanToTermLeaf target exactOnly f t tExists
      else scanToTermNonLeaf target exactOnly f t tExists)"

declare scanLeafLoop.simps [simp del]

section \<open>The cursor\<close>

text \<open>
  \<^verbatim>\<open>currentFrame\<close> is a pointer: to the static frame, to a frame of the stack (the model
  keeps its index), or \<^verbatim>\<open>nil\<close> (after \<^verbatim>\<open>e.currentFrame, err = e.pushFrame(...)\<close> returned an
  error).
\<close>

datatype FramePtr = NilFrame | StaticFrame | StackFrame nat

text \<open>
  \<^verbatim>\<open>SegmentTermsEnum\<close>. \<open>tim\<close> is the field \<^verbatim>\<open>in\<close>, the cursor's clone of the terms file
  (\<open>None\<close> until \<^verbatim>\<open>initIndexInput\<close>), and \<open>timReads\<close> counts the calls made on it, as a
  counting wrapper around the input would. \<open>curTerm\<close> is the slice \<^verbatim>\<open>term\<close> up to its
  length and \<open>termSpare\<close> the bytes of its array behind the length, up to the capacity:
  a slice expression may reach them. The static frame is never written to: it is
  \<open>newFrame\<close> at \<open>-1\<close>.
\<close>

record SegmentTermsEnum =
  fieldReader :: FieldReader
  tim :: "IndexInput option"
  timReads :: nat
  stack :: "Frame list"
  currentFrame :: FramePtr
  termExists :: bool
  targetBeforeCurrentLength :: int
  scratchReader :: ByteArrayDataInput
  validIndexPrefix :: int
  eof :: bool
  curTerm :: "byte list"
  termSpare :: "byte list"
  arcs :: "Arc list"

type_synonym 'a step = "(error + 'a) \<times> SegmentTermsEnum"

definition nilDeref :: error where
  "nilDeref = Panic ''invalid memory address or nil pointer dereference''"

definition indexOutOfRange :: error where
  "indexOutOfRange = Panic ''index out of range''"

fun isPanic :: "error \<Rightarrow> bool" where
  "isPanic (Panic m) = True"
| "isPanic e = False"

text \<open>
  \<^verbatim>\<open>newSegmentTermsEnum\<close>: the log line reads \<^verbatim>\<open>r.segment\<close> through the owner, the static
  frame asks the owner's postings reader for its state, and the first arc of a loaded
  index must be final. The call of \<^verbatim>\<open>printSeekState\<close> at the end finds the static frame
  current and only writes to the log.
\<close>

definition newSegmentTermsEnum :: "FieldReader \<Rightarrow> error + SegmentTermsEnum" where
  "newSegmentTermsEnum r =
     (case owner r of
        None \<Rightarrow> Inl nilDeref
      | Some own \<Rightarrow>
          (let ans = \<lparr>fieldReader = r, tim = None, timReads = 0, stack = [],
                      currentFrame = StaticFrame, termExists = False,
                      targetBeforeCurrentLength = 0, scratchReader = \<lparr>buf = [], Pos = 0\<rparr>,
                      validIndexPrefix = 0, eof = False, curTerm = [], termSpare = [],
                      arcs = [zeroArc]\<rparr>
           in (case index r of
                 None \<Rightarrow> Inr ans
               | Some t \<Rightarrow>
                   if \<not> IsFinal (FirstArc t) then Inl (Panic ''assert fail'')
                   else Inr (ans\<lparr>arcs := [FirstArc t]\<rparr>))))"

text \<open>The frame a pointer points to; \<open>None\<close> for \<^verbatim>\<open>nil\<close>.\<close>

definition frameAt :: "SegmentTermsEnum \<Rightarrow> FramePtr \<Rightarrow> Frame option" where
  "frameAt c p =
     (case p of
        NilFrame \<Rightarrow> None
      | StaticFrame \<Rightarrow>
          (case owner (fieldReader c) of
             None \<Rightarrow> None
           | Some own \<Rightarrow> Some (newFrame (ownerPostings own) (-1)))
      | StackFrame k \<Rightarrow> (if k < length (stack c) then Some (stack c ! k) else None))"

text \<open>
  \<^verbatim>\<open>frame(ord)\<close>: the stack grows to hold \<^verbatim>\<open>ord\<close>, by new frames that know their place, and
  the frame found there must know its place too. The result is the index of the frame.
\<close>

definition frame :: "int \<Rightarrow> SegmentTermsEnum \<Rightarrow> nat step" where
  "frame k c =
     (if k < 0 then (Inl indexOutOfRange, c)
      else if nat k < length (stack c) then
        (if ord (stack c ! nat k) \<noteq> k then (Inl (Panic ''assert fail''), c)
         else (Inr (nat k), c))
      else
        (case owner (fieldReader c) of
           None \<Rightarrow> (Inl nilDeref, c)
         | Some own \<Rightarrow>
             (Inr (nat k),
              c\<lparr>stack := stack c @ map (\<lambda>i. newFrame (ownerPostings own) (int i))
                                     [length (stack c) ..< Suc (nat k)]\<rparr>)))"

text \<open>
  \<^verbatim>\<open>printSeekState\<close> writes the seek state to the log, and checks it on the way. The code
  that a frame stands for is \<^verbatim>\<open>f.fp << 2\<close> with the two flags added.
\<close>

definition frameCode :: "Frame \<Rightarrow> int64" where
  "frameCode f =
     push_bit BTT_OUTPUT_FLAGS_NUM_BITS (fp f)
       + (if hasTerms f then BTT_OUTPUT_FLAG_HAS_TERMS else 0)
       + (if isFloor f then BTT_OUTPUT_FLAG_IS_FLOOR else 0)"

text \<open>
  One round of its loop, for the frame \<^verbatim>\<open>e.frame(ord)\<close>: \<^verbatim>\<open>e.term[0:f.prefix]\<close> may reach
  into the capacity of the term; a frame of the seek must have its arc; the index must
  give the prefix an output, whose code (read with the error dropped) must be the
  frame's code when the frame is a frame of the seek and not a floor frame. The result
  is \<^verbatim>\<open>isSeekFrame\<close> for the next round.
\<close>

definition printSeekFrame :: "nat \<Rightarrow> bool \<Rightarrow> SegmentTermsEnum \<Rightarrow> bool step" where
  "printSeekFrame n isSeekFrame c =
     (case frame (int n) c of
        (Inl e, c1) \<Rightarrow> (Inl e, c1)
      | (Inr j, c1) \<Rightarrow>
          (let f = stack c1 ! j
           in if prefix f < 0 \<or> int (length (curTerm c1) + length (termSpare c1)) < prefix f
                then (Inl (Panic ''slice bounds out of range''), c1)
              else
                (case index (fieldReader c1) of
                   None \<Rightarrow> (Inr (isSeekFrame \<and> prefix f \<noteq> validIndexPrefix c1), c1)
                 | Some t \<Rightarrow>
                     if isSeekFrame \<and> arc f = None then (Inl (Panic ''assert fail''), c1)
                     else
                       (case GetOutput t (take (nat (prefix f)) (curTerm c1 @ termSpare c1)) of
                          Inl msg \<Rightarrow> (Inl (Panic msg), c1)
                        | Inr None \<Rightarrow>
                            (Inl (Panic ''interface conversion: interface is nil, not []uint8''),
                             c1)
                        | Inr (Some outp) \<Rightarrow>
                            if isSeekFrame \<and> \<not> isFloor f
                                 \<and> fst (ReadVLongIgnoreErr (Reset outp)) \<noteq> frameCode f
                            then (Inl (Panic ''seek state is broken''), c1)
                            else (Inr (isSeekFrame \<and> prefix f \<noteq> validIndexPrefix c1),
                                  c1)))))"

text \<open>
  The loop, over the places \<^verbatim>\<open>ord\<close> it visits: it ends behind the frame that is the current
  one (\<^verbatim>\<open>f == e.currentFrame\<close>), which is the last place of the list.
\<close>

fun printSeekLoop :: "nat list \<Rightarrow> bool \<Rightarrow> SegmentTermsEnum \<Rightarrow> unit step" where
  "printSeekLoop [] isSeekFrame c = (Inr (), c)"
| "printSeekLoop (n # ns) isSeekFrame c =
     (case printSeekFrame n isSeekFrame c of
        (Inl e, c1) \<Rightarrow> (Inl e, c1)
      | (Inr isSeekFrame', c1) \<Rightarrow> printSeekLoop ns isSeekFrame' c1)"

text \<open>
  \<^verbatim>\<open>printSeekState\<close>. With the static frame current there is no loop; with the frame \<open>k\<close>
  of the stack current the loop visits the frames \<open>0\<close> to \<open>k\<close>. No frame is the \<^verbatim>\<open>nil\<close>
  frame: then the loop goes through the stack and on through the frames it makes behind
  it. The first of them ends it with a panic unless \<^verbatim>\<open>isSeekFrame\<close> is off and the index
  has an output for the empty prefix; otherwise every further round is the same round on
  one more new frame, and the call never returns: the program ends when the memory
  does, which the model records as a panic.
\<close>

definition printSeekState :: "SegmentTermsEnum \<Rightarrow> unit step" where
  "printSeekState c =
     (case currentFrame c of
        StaticFrame \<Rightarrow> (Inr (), c)
      | StackFrame k \<Rightarrow> printSeekLoop [0 ..< Suc k] True c
      | NilFrame \<Rightarrow>
          (case printSeekLoop [0 ..< Suc (length (stack c))] True c of
             (Inl e, c1) \<Rightarrow> (Inl e, c1)
           | (Inr u, c1) \<Rightarrow> (Inl (Panic ''fatal error: runtime: out of memory''), c1)))"

text \<open>\<^verbatim>\<open>getArc(ord)\<close>: the arcs grow to hold the slot \<^verbatim>\<open>ord\<close>, by zero arcs.\<close>

definition getArc :: "nat \<Rightarrow> SegmentTermsEnum \<Rightarrow> SegmentTermsEnum" where
  "getArc k c =
     (if k < length (arcs c) then c
      else c\<lparr>arcs := arcs c @ replicate (Suc k - length (arcs c)) zeroArc\<rparr>)"

text \<open>
  \<^verbatim>\<open>pushFrameAt(arc, fp, length)\<close>: a frame already loaded from the same block is kept,
  rewound when its prefix is longer than \<^verbatim>\<open>targetBeforeCurrentLength\<close>; any other frame is
  marked as not loaded. \<open>a\<close> is the slot of \<^verbatim>\<open>arcs\<close> that \<^verbatim>\<open>arc\<close> points to.
\<close>

definition pushFrameAt :: "nat \<Rightarrow> int64 \<Rightarrow> int \<Rightarrow> SegmentTermsEnum \<Rightarrow> nat step" where
  "pushFrameAt a fpSeek len c =
     (case frameAt c (currentFrame c) of
        None \<Rightarrow> (Inl nilDeref, c)
      | Some cur \<Rightarrow>
          (case frame (1 + ord cur) c of
             (Inl e, c1) \<Rightarrow> (Inl e, c1)
           | (Inr k, c1) \<Rightarrow>
               (let f = (stack c1 ! k)\<lparr>arc := Some a\<rparr>
                in if fpOrig f = fpSeek \<and> nextEnt f \<noteq> -1 then
                     (let f1 = (if targetBeforeCurrentLength c1 < prefix f then rewind f else f);
                          c2 = c1\<lparr>stack := (stack c1)[k := f1]\<rparr>
                      in if len \<noteq> prefix f1 then (Inl (Panic ''assert fail''), c2)
                         else (Inr k, c2))
                   else
                     (Inr k,
                      c1\<lparr>stack := (stack c1)
                           [k := f\<lparr>nextEnt := -1, prefix := len,
                                   state := (state f)\<lparr>termBlockOrd := 0\<rparr>,
                                   fpOrig := fpSeek, fp := fpSeek, lastSubFP := -1\<rparr>]\<rparr>))))"

text \<open>
  \<^verbatim>\<open>pushFrame(arc, frameData, length)\<close>: the code at the head of \<^verbatim>\<open>frameData\<close> gives the
  block's file pointer and its two flags; the floor data follow it. An error of
  \<^verbatim>\<open>ReadVLong\<close> is returned (with a \<^verbatim>\<open>nil\<close> frame), anything else that fails is a panic.
\<close>

definition pushFrame :: "nat \<Rightarrow> byte list \<Rightarrow> int \<Rightarrow> SegmentTermsEnum \<Rightarrow> nat step" where
  "pushFrame a frameData len c =
     (let c1 = c\<lparr>scratchReader := Reset frameData\<rparr>
      in (case ReadVLong (scratchReader c1) of
            Inl e \<Rightarrow> (Inl e, c1)
          | Inr (code, rd) \<Rightarrow>
              (let c2 = c1\<lparr>scratchReader := rd\<rparr>;
                   fpSeek = drop_bit BTT_OUTPUT_FLAGS_NUM_BITS code
               in (case frameAt c2 (currentFrame c2) of
                     None \<Rightarrow> (Inl nilDeref, c2)
                   | Some cur \<Rightarrow>
                       (case frame (1 + ord cur) c2 of
                          (Inl e, c3) \<Rightarrow> (Inl e, c3)
                        | (Inr k, c3) \<Rightarrow>
                            (let f = stack c3 ! k;
                                 f1 = f\<lparr>hasTerms := (code AND BTT_OUTPUT_FLAG_HAS_TERMS \<noteq> 0),
                                        hasTermsOrig := (code AND BTT_OUTPUT_FLAG_HAS_TERMS \<noteq> 0),
                                        isFloor := (code AND BTT_OUTPUT_FLAG_IS_FLOOR \<noteq> 0)\<rparr>;
                                 f2 = (if isFloor f1 then setFloorData rd frameData f1 else f1)
                             in pushFrameAt a fpSeek len
                                  (c3\<lparr>stack := (stack c3)[k := f2]\<rparr>)))))))"

text \<open>
  \<^verbatim>\<open>loadBlock\<close> on the frame \<open>k\<close> of the stack: \<^verbatim>\<open>initIndexInput\<close> clones the owner's input
  on first use; a loaded frame returns at once, with no call on the input.
\<close>

definition loadBlock :: "nat \<Rightarrow> SegmentTermsEnum \<Rightarrow> (error option) step" where
  "loadBlock k c =
     (case owner (fieldReader c) of
        None \<Rightarrow> (Inl nilDeref, c)
      | Some own \<Rightarrow>
          (let i = (case tim c of None \<Rightarrow> ownerIn own | Some i' \<Rightarrow> i');
               c1 = c\<lparr>tim := Some i\<rparr>;
               f = stack c1 ! k
           in if nextEnt f \<noteq> -1 then (Inr None, c1)
              else
                (case loadBlockFrom (ownerPostings own) i f of
                   (r, i', n, f') \<Rightarrow>
                     (r, c1\<lparr>tim := Some i', timReads := timReads c1 + n,
                            stack := (stack c1)[k := f']\<rparr>))))"

text \<open>
  \<^verbatim>\<open>scanToTerm\<close> on the frame \<open>k\<close> of the stack, with the cursor's term and flag. A term
  that \<^verbatim>\<open>fillTerm\<close> made longer is in a new array of just that length.
\<close>

definition scanToTermAt :: "nat \<Rightarrow> byte list \<Rightarrow> bool \<Rightarrow> SegmentTermsEnum \<Rightarrow> SeekStatus step" where
  "scanToTermAt k target exactOnly c =
     (case scanToTerm target exactOnly (stack c ! k) (curTerm c) (termExists c) of
        (r, f', t', ex') \<Rightarrow>
          (r, c\<lparr>stack := (stack c)[k := f'], curTerm := t', termExists := ex',
                termSpare := (if length (curTerm c) < length t' then [] else termSpare c)\<rparr>))"

section \<open>SeekExact\<close>

text \<open>
  The first loop of the re-use branch (``First compare up to valid seek frames''). It
  writes nothing to the cursor: it walks the term and the target while they agree, and
  carries the slot \<open>a\<close> of the arc, the output and the index \<open>lf\<close> of \<^verbatim>\<open>lastFrame\<close>. The
  result is \<^verbatim>\<open>cmp\<close> with \<^verbatim>\<open>targetUpto\<close>, the arc, the output and \<^verbatim>\<open>lastFrame\<close>. The difference
  of two bytes is a byte, so \<^verbatim>\<open>cmp\<close> is never negative here. \<^verbatim>\<open>arc.Output != noOutputs\<close> is
  read as the test whether the output is the empty one of the output algebra.
\<close>

function reuseLoop ::
  "SegmentTermsEnum \<Rightarrow> byte list \<Rightarrow> int \<Rightarrow> nat \<Rightarrow> nat \<Rightarrow> byte list \<Rightarrow> nat \<Rightarrow>
     error + (int \<times> nat \<times> nat \<times> byte list \<times> nat)" where
  "reuseLoop c target targetLimit targetUpto a out lf =
     (if int targetUpto < targetLimit then
        (if length (curTerm c) \<le> targetUpto \<or> length target \<le> targetUpto
         then Inl indexOutOfRange
         else
           (let cmp = uint (curTerm c ! targetUpto - target ! targetUpto)
            in if cmp \<noteq> 0 then Inr (cmp, targetUpto, a, out, lf)
               else if length (arcs c) \<le> Suc targetUpto then Inl indexOutOfRange
               else
                 (let arc = arcs c ! Suc targetUpto
                  in if Label arc \<noteq> uint (target ! targetUpto) then Inl (Panic ''assert fail'')
                     else
                       (case (if Output arc \<noteq> Some [] then outputsAdd out (Output arc)
                              else Inr out) of
                          Inl e \<Rightarrow> Inl e
                        | Inr out' \<Rightarrow>
                            if IsFinal arc then
                              (if length (stack c) \<le> lf then Inl indexOutOfRange
                               else if 1 + ord (stack c ! lf) < 0
                                      \<or> int (length (stack c)) \<le> 1 + ord (stack c ! lf)
                                 then Inl indexOutOfRange
                               else reuseLoop c target targetLimit (Suc targetUpto)
                                      (Suc targetUpto) out' (nat (1 + ord (stack c ! lf))))
                            else reuseLoop c target targetLimit (Suc targetUpto)
                                   (Suc targetUpto) out' lf))))
      else Inr (0, targetUpto, a, out, lf))"
  by pat_completeness auto
termination
  by (relation "measure (\<lambda>(c, target, targetLimit, targetUpto, a, out, lf).
        nat (targetLimit - int targetUpto))") auto

declare reuseLoop.simps [simp del]

text \<open>
  The second loop (``compare the rest of the term''), up to the shorter of the two
  lengths: the first difference of two bytes that is not zero, or zero.
\<close>

function cmpRest :: "byte list \<Rightarrow> byte list \<Rightarrow> nat \<Rightarrow> nat \<Rightarrow> int" where
  "cmpRest t target targetUpto targetLimit2 =
     (if targetUpto < targetLimit2 then
        (if uint (t ! targetUpto - target ! targetUpto) \<noteq> 0
         then uint (t ! targetUpto - target ! targetUpto)
         else cmpRest t target (Suc targetUpto) targetLimit2)
      else 0)"
  by pat_completeness auto
termination
  by (relation "measure (\<lambda>(t, target, targetUpto, targetLimit2).
        targetLimit2 - targetUpto)") auto

declare cmpRest.simps [simp del]

text \<open>
  How the first half of \<^verbatim>\<open>SeekExact\<close> ends: with the answer \<^verbatim>\<open>true\<close> (the target is the
  current term), or with the arc's slot, \<^verbatim>\<open>targetUpto\<close> and the output with which the
  walk down the index starts.
\<close>

datatype seekStart = Done bool | Descend nat nat "byte list"

text \<open>The branch \<^verbatim>\<open>e.currentFrame.ord != e.staticFrame.ord\<close>: re-use of the seek state.\<close>

definition seekReuse :: "byte list \<Rightarrow> SegmentTermsEnum \<Rightarrow> seekStart step" where
  "seekReuse target c =
     (if arcs c = [] then (Inl indexOutOfRange, c)
      else if \<not> IsFinal (arcs c ! 0) then (Inl (Panic ''assert fail''), c)
      else
        (case Output (arcs c ! 0) of
           None \<Rightarrow> (Inl (Panic ''interface conversion: interface is nil, not []uint8''), c)
         | Some output \<Rightarrow>
             if stack c = [] then (Inl indexOutOfRange, c)
             else if int (length (curTerm c)) < validIndexPrefix c
               then (Inl (Panic ''assert fail''), c)
             else
               (let targetLimit = (if validIndexPrefix c < int (length target)
                                   then validIndexPrefix c else int (length target))
                in (case reuseLoop c target targetLimit 0 0 output 0 of
                      Inl e \<Rightarrow> (Inl e, c)
                    | Inr (cmp0, targetUpto, a, out, lf) \<Rightarrow>
                        (let cmp1 = (if cmp0 = 0
                                     then cmpRest (curTerm c) target targetUpto
                                            (min (length target) (length (curTerm c)))
                                     else cmp0);
                             cmp = (if cmp0 = 0 \<and> cmp1 = 0
                                    then int (length (curTerm c)) - int (length target)
                                    else cmp1)
                         in if cmp < 0 then
                              (Inr (Descend a targetUpto out), c\<lparr>currentFrame := StackFrame lf\<rparr>)
                            else if 0 < cmp then
                              (Inr (Descend a targetUpto out),
                               c\<lparr>targetBeforeCurrentLength := 0, currentFrame := StackFrame lf,
                                 stack := (stack c)[lf := rewind (stack c ! lf)]\<rparr>)
                            else if length (curTerm c) \<noteq> length target
                              then (Inl (Panic ''assert fail''), c)
                            else if termExists c then (Inr (Done True), c)
                            else (Inr (Descend a targetUpto out), c))))))"

text \<open>
  The other branch: the first arc of the index is written to \<^verbatim>\<open>arcs[0]\<close> and the root
  frame is pushed. \<^verbatim>\<open>e.currentFrame, err = e.pushFrame(...)\<close> leaves a \<^verbatim>\<open>nil\<close> frame behind
  an error.
\<close>

definition seekFresh :: "FST \<Rightarrow> byte list \<Rightarrow> SegmentTermsEnum \<Rightarrow> seekStart step" where
  "seekFresh t target c =
     (let c1 = c\<lparr>targetBeforeCurrentLength := -1\<rparr>
      in if arcs c1 = [] then (Inl indexOutOfRange, c1)
         else
           (let arc = FirstArc t;
                c2 = c1\<lparr>arcs := (arcs c1)[0 := arc]\<rparr>
            in (case Output arc of
                  None \<Rightarrow> (Inl (Panic ''assert fail''), c2)
                | Some output \<Rightarrow>
                    if \<not> IsFinal arc then (Inl (Panic ''assert fail''), c2)
                    else
                      (let c3 = c2\<lparr>currentFrame := StaticFrame\<rparr>
                       in (case outputsAdd output (NextFinalOutput arc) of
                             Inl e \<Rightarrow> (Inl e, c3)
                           | Inr frameData \<Rightarrow>
                               (case pushFrame 0 frameData 0 c3 of
                                  (Inl e, c4) \<Rightarrow>
                                    (Inl e, if isPanic e then c4 else c4\<lparr>currentFrame := NilFrame\<rparr>)
                                | (Inr k, c4) \<Rightarrow>
                                    (Inr (Descend 0 0 output),
                                     c4\<lparr>currentFrame := StackFrame k\<rparr>)))))))"

text \<open>
  How the walk down the index ends: the index has no arc for the next label of the
  target, or the target is used up.
\<close>

datatype descentEnd = IndexExhausted | TargetExhausted

text \<open>
  The loop \<^verbatim>\<open>for targetUpto < len(target)\<close>, up to the point where the walk ends; what
  \<^verbatim>\<open>SeekExact\<close> does from there, inside the loop for an exhausted index and after it for an
  exhausted target, is \<open>seekFinish\<close>. \<^verbatim>\<open>FindTargetArc\<close> is given the arc in slot \<open>a\<close> and the
  slot \<^verbatim>\<open>1 + targetUpto\<close>, which \<^verbatim>\<open>getArc\<close> has made; the arc it finds is in that slot
  afterwards. \<^verbatim>\<open>e.term[targetUpto] = byte(targetLabel)\<close> is an assignment to an index of
  the slice, which must be below its length. The result is how the walk ended, with
  \<^verbatim>\<open>targetUpto\<close>.
\<close>

function descend ::
  "FST \<Rightarrow> byte list \<Rightarrow> nat \<Rightarrow> nat \<Rightarrow> byte list \<Rightarrow> SegmentTermsEnum \<Rightarrow>
     (descentEnd \<times> nat) step" where
  "descend t target a targetUpto out c =
     (if targetUpto < length target then
        (let targetLabel = uint (target ! targetUpto);
             c1 = getArc (Suc targetUpto) c
         in (case FindTargetArc t targetLabel (arcs c1 ! a) of
               Inl e \<Rightarrow> (Inl e, c1)
             | Inr None \<Rightarrow> (Inr (IndexExhausted, targetUpto), c1)
             | Inr (Some nextArc) \<Rightarrow>
                 (let c2 = c1\<lparr>arcs := (arcs c1)[Suc targetUpto := nextArc]\<rparr>
                  in if length (curTerm c2) \<le> targetUpto then (Inl indexOutOfRange, c2)
                     else
                       (let c3 = c2\<lparr>curTerm := (curTerm c2)[targetUpto := target ! targetUpto]\<rparr>
                        in (case Output nextArc of
                              None \<Rightarrow> (Inl (Panic ''assert fail''), c3)
                            | Some ao \<Rightarrow>
                                (let out' = (if ao \<noteq> [] then out @ ao else out)
                                 in if IsFinal nextArc then
                                      (case outputsAdd out' (NextFinalOutput nextArc) of
                                         Inl e \<Rightarrow> (Inl e, c3)
                                       | Inr frameData \<Rightarrow>
                                           (case pushFrame (Suc targetUpto) frameData
                                                   (int (Suc targetUpto)) c3 of
                                              (Inl e, c4) \<Rightarrow>
                                                (Inl e, if isPanic e then c4
                                                        else c4\<lparr>currentFrame := NilFrame\<rparr>)
                                            | (Inr k, c4) \<Rightarrow>
                                                descend t target (Suc targetUpto) (Suc targetUpto)
                                                  out' (c4\<lparr>currentFrame := StackFrame k\<rparr>)))
                                    else descend t target (Suc targetUpto) (Suc targetUpto)
                                           out' c3))))))
      else (Inr (TargetExhausted, targetUpto), c))"
  by pat_completeness auto
termination
  by (relation "measure (\<lambda>(t, target, a, targetUpto, out, c). length target - targetUpto)") auto

declare descend.simps [simp del]

text \<open>
  \<^verbatim>\<open>append(e.term, b)\<close> writes the byte behind the length when the array has room. When it
  has none the term moves to a new array; how much room the run-time system leaves
  behind the new byte is its choice, and the model leaves none.
\<close>

definition appendTerm :: "byte \<Rightarrow> SegmentTermsEnum \<Rightarrow> SegmentTermsEnum" where
  "appendTerm b c =
     (if termSpare c = [] then c\<lparr>curTerm := curTerm c @ [b]\<rparr>
      else c\<lparr>curTerm := curTerm c @ [b], termSpare := tl (termSpare c)\<rparr>)"

text \<open>
  \<^verbatim>\<open>e.term[0:n]\<close>: the first \<open>n\<close> bytes of the array, which may be more than the term had;
  \<open>n\<close> beyond the capacity is a panic.
\<close>

definition resliceTerm :: "nat \<Rightarrow> SegmentTermsEnum \<Rightarrow> error + SegmentTermsEnum" where
  "resliceTerm n c =
     (if length (curTerm c) + length (termSpare c) < n
      then Inl (Panic ''slice bounds out of range'')
      else Inr (c\<lparr>curTerm := take n (curTerm c @ termSpare c),
                  termSpare := drop n (curTerm c @ termSpare c)\<rparr>))"

text \<open>
  What \<^verbatim>\<open>SeekExact\<close> does when the walk has ended, which the source writes twice; the two
  copies differ in what they do to the term on the fast path:
  \<^verbatim>\<open>append(e.term, byte(targetLabel))\<close> against \<^verbatim>\<open>e.term[0:targetUpto]\<close>. The error that
  \<^verbatim>\<open>loadBlock\<close> returns is dropped. A frame that has terms is a frame of the stack: the
  static frame has none.
\<close>

definition seekFinish :: "descentEnd \<Rightarrow> byte list \<Rightarrow> nat \<Rightarrow> SegmentTermsEnum \<Rightarrow> bool step" where
  "seekFinish how target targetUpto c =
     (case frameAt c (currentFrame c) of
        None \<Rightarrow> (Inl nilDeref, c)
      | Some cur \<Rightarrow>
          (let c1 = c\<lparr>validIndexPrefix := prefix cur\<rparr>
           in (case scanToFloorFrame cur target of
                 Inl e \<Rightarrow> (Inl e, c1)
               | Inr cur' \<Rightarrow>
                   if \<not> hasTerms cur' then
                     (let c2 = c1\<lparr>termExists := False\<rparr>
                      in (case how of
                            IndexExhausted \<Rightarrow> (Inr False, appendTerm (target ! targetUpto) c2)
                          | TargetExhausted \<Rightarrow>
                              (case resliceTerm targetUpto c2 of
                                 Inl e \<Rightarrow> (Inl e, c2)
                               | Inr c3 \<Rightarrow> (Inr False, c3))))
                   else
                     (case currentFrame c1 of
                        StackFrame k \<Rightarrow>
                          (case loadBlock k c1 of
                             (Inl e, c2) \<Rightarrow> (Inl e, c2)
                           | (Inr ignored, c2) \<Rightarrow>
                               (case scanToTermAt k target True c2 of
                                  (Inl e, c3) \<Rightarrow> (Inl e, c3)
                                | (Inr status, c3) \<Rightarrow> (Inr (status = SEEK_STATUS_FOUND), c3)))
                      | other \<Rightarrow> (Inl nilDeref, c1)))))"

text \<open>
  The head of \<^verbatim>\<open>SeekExact\<close> behind the test of the index: a term whose capacity is not
  above \<^verbatim>\<open>len(target)\<close> moves to an array of that capacity, \<^verbatim>\<open>eof\<close> is cleared, the log
  line reads \<^verbatim>\<open>e.segment\<close> through the owner, and \<^verbatim>\<open>printSeekState\<close> runs.
\<close>

definition seekPrepare :: "byte list \<Rightarrow> SegmentTermsEnum \<Rightarrow> unit step" where
  "seekPrepare target c =
     (let c1 = (if length (curTerm c) + length (termSpare c) \<le> length target
                then c\<lparr>termSpare := replicate (length target - length (curTerm c)) 0\<rparr>
                else c);
          c2 = c1\<lparr>eof := False\<rparr>
      in (case owner (fieldReader c2) of
            None \<Rightarrow> (Inl nilDeref, c2)
          | Some own \<Rightarrow> printSeekState c2))"

text \<open>
  The first half of \<^verbatim>\<open>SeekExact\<close> behind its head: \<^verbatim>\<open>targetBeforeCurrentLength\<close> is set to
  the current frame's \<^verbatim>\<open>ord\<close>, and the seek state is re-used or made.
\<close>

definition seekStartFrom :: "FST \<Rightarrow> byte list \<Rightarrow> SegmentTermsEnum \<Rightarrow> seekStart step" where
  "seekStartFrom t target c =
     (case frameAt c (currentFrame c) of
        None \<Rightarrow> (Inl nilDeref, c)
      | Some cur \<Rightarrow>
          (let c2 = c\<lparr>targetBeforeCurrentLength := ord cur\<rparr>
           in if ord cur \<noteq> -1 then seekReuse target c2
              else seekFresh t target c2))"

text \<open>
  \<^verbatim>\<open>SeekExact(target)\<close>. The result is the pair the Go function returns (\<open>Inr ok\<close> with a
  \<^verbatim>\<open>nil\<close> error, \<open>Inl\<close> the error) or the panic that ends it, beside the cursor as the
  call leaves it.
\<close>

definition SeekExact :: "byte list \<Rightarrow> SegmentTermsEnum \<Rightarrow> bool step" where
  "SeekExact target c =
     (case index (fieldReader c) of
        None \<Rightarrow> (Inl (Panic ''terms index was not loaded''), c)
      | Some t \<Rightarrow>
          (case seekPrepare target c of
             (Inl e, c2) \<Rightarrow> (Inl e, c2)
           | (Inr u, c2) \<Rightarrow>
               (case seekStartFrom t target c2 of
                  (Inl e, c3) \<Rightarrow> (Inl e, c3)
                | (Inr (Done ok), c3) \<Rightarrow> (Inr ok, c3)
                | (Inr (Descend a targetUpto out), c3) \<Rightarrow>
                    (case descend t target a targetUpto out c3 of
                       (Inl e, c4) \<Rightarrow> (Inl e, c4)
                     | (Inr (how, targetUpto'), c4) \<Rightarrow>
                         seekFinish how target targetUpto' c4))))"

text \<open>\<^verbatim>\<open>Term()\<close>: the current term, or a panic at the end of the enumeration.\<close>

definition Term :: "SegmentTermsEnum \<Rightarrow> error + byte list" where
  "Term c = (if eof c then Inl (Panic ''assert fail'') else Inr (curTerm c))"

section \<open>Notions for the statements about SeekExact\<close>



text \<open>
  The frame on which the walk down the index ends in \<^verbatim>\<open>SeekExact(target)\<close>, after
  \<^verbatim>\<open>scanToFloorFrame\<close>: the first half of \<open>SeekExact\<close>, up to the test of \<^verbatim>\<open>hasTerms\<close>. There
  is none when the call ends before that test.
\<close>

definition descentEndsOn :: "byte list \<Rightarrow> SegmentTermsEnum \<Rightarrow> Frame option" where
  "descentEndsOn target c =
     (case index (fieldReader c) of
        None \<Rightarrow> None
      | Some t \<Rightarrow>
          (case seekPrepare target c of
             (Inl e, c2) \<Rightarrow> None
           | (Inr u, c2) \<Rightarrow>
               (case seekStartFrom t target c2 of
                  (Inl e, c3) \<Rightarrow> None
                | (Inr (Done ok), c3) \<Rightarrow> None
                | (Inr (Descend a targetUpto out), c3) \<Rightarrow>
                    (case descend t target a targetUpto out c3 of
                       (Inl e, c4) \<Rightarrow> None
                     | (Inr (how, targetUpto'), c4) \<Rightarrow>
                         (case frameAt c4 (currentFrame c4) of
                            None \<Rightarrow> None
                          | Some cur \<Rightarrow>
                              (case scanToFloorFrame cur target of
                                 Inl e \<Rightarrow> None
                               | Inr cur' \<Rightarrow> Some cur'))))))"

text \<open>
  The calls \<^verbatim>\<open>SeekExact\<close> of a list of targets, one after the other on one cursor.
  \<open>seekAll\<close> is the cursor after them when every call returned an answer (\<^verbatim>\<open>ok\<close> with a
  \<^verbatim>\<open>nil\<close> error), \<open>seekEach\<close> the cursor after them whatever they returned, as a caller
  has it who goes on after an error.
\<close>

fun seekAll :: "byte list list \<Rightarrow> SegmentTermsEnum \<Rightarrow> SegmentTermsEnum option" where
  "seekAll [] c = Some c"
| "seekAll (target # rest) c =
     (case SeekExact target c of
        (Inl e, c') \<Rightarrow> None
      | (Inr ok, c') \<Rightarrow> seekAll rest c')"

definition seekEach :: "byte list list \<Rightarrow> SegmentTermsEnum \<Rightarrow> SegmentTermsEnum" where
  "seekEach targets c = foldl (\<lambda>c' target. snd (SeekExact target c')) c targets"

text \<open>
  The arcs agree with the term on its first \<open>n\<close> bytes: \<^verbatim>\<open>arcs[1+i].Label\<close> is the byte
  \<^verbatim>\<open>term[i]\<close>.
\<close>

definition labelsAgree :: "SegmentTermsEnum \<Rightarrow> nat \<Rightarrow> bool" where
  "labelsAgree c n \<longleftrightarrow>
     (\<forall>i<n. Suc i < length (arcs c) \<and> i < length (curTerm c)
              \<and> Label (arcs c ! Suc i) = uint (curTerm c ! i))"

text \<open>The number of final arcs among \<^verbatim>\<open>arcs[1]\<close>, ..., \<^verbatim>\<open>arcs[p]\<close>.\<close>

definition countFinal :: "Arc list \<Rightarrow> nat \<Rightarrow> nat" where
  "countFinal as p = length (filter IsFinal (take p (tl as)))"

text \<open>
  The frames \<open>0\<close> to \<open>k\<close> of the stack are the frames of the final arcs on the path that
  the arcs spell: the frame \<open>j\<close> knows its place, and its prefix length is the place of
  the \<open>j\<close>-th final arc (\<open>0\<close> for the root frame).
\<close>

definition framesAgree :: "SegmentTermsEnum \<Rightarrow> nat \<Rightarrow> bool" where
  "framesAgree c k \<longleftrightarrow>
     k < length (stack c) \<and> prefix (stack c ! 0) = 0
       \<and> (\<forall>j\<le>k. ord (stack c ! j) = int j \<and> 0 \<le> prefix (stack c ! j)
                  \<and> countFinal (arcs c) (nat (prefix (stack c ! j))) = j
                  \<and> (0 < j \<longrightarrow> nat (prefix (stack c ! j)) < length (arcs c)
                               \<and> IsFinal (arcs c ! nat (prefix (stack c ! j)))))"

text \<open>
  The state of the cursor between two calls of \<^verbatim>\<open>SeekExact\<close> that returned an answer:
  no seek yet, or the frames up to the current one in their places, \<^verbatim>\<open>validIndexPrefix\<close>
  the prefix length of the current frame and within the term, and the arcs in agreement
  with the term that far.
\<close>

definition seekInvariant :: "SegmentTermsEnum \<Rightarrow> bool" where
  "seekInvariant c \<longleftrightarrow>
     arcs c \<noteq> []
       \<and> (case currentFrame c of
            NilFrame \<Rightarrow> False
          | StaticFrame \<Rightarrow> validIndexPrefix c = 0
          | StackFrame k \<Rightarrow>
              framesAgree c k \<and> validIndexPrefix c = prefix (stack c ! k)
                \<and> validIndexPrefix c \<le> int (length (curTerm c))
                \<and> labelsAgree c (nat (validIndexPrefix c)))"

text \<open>
  The state of the cursor at the head of the loop that walks down the index, with
  \<^verbatim>\<open>targetUpto = up\<close> and the frame \<open>k\<close> current: \<open>k\<close> final arcs lie on the path so far,
  no frame up to \<open>k\<close> is deeper than the path, and the arcs agree with the term on the
  path.
\<close>

definition descentInv :: "SegmentTermsEnum \<Rightarrow> nat \<Rightarrow> nat \<Rightarrow> bool" where
  "descentInv c k up \<longleftrightarrow>
     currentFrame c = StackFrame k \<and> framesAgree c k
       \<and> (\<forall>j\<le>k. prefix (stack c ! j) \<le> int up)
       \<and> countFinal (arcs c) up = k \<and> up \<le> length (curTerm c)
       \<and> labelsAgree c up \<and> up < length (arcs c)"

section \<open>A small index\<close>

text \<open>
  The objects on which the theorems below are run. The postings reader reads nothing.
  The index has a root block at file pointer 1 that holds no terms and is not a floor
  block (its code is \<open>4\<close>, the output of the empty prefix), one arc, labelled \<open>a\<close> and
  not final, out of the root, and nothing else.
\<close>

definition examplePostings :: PostingsReaderBase where
  "examplePostings =
     \<lparr>Init = (\<lambda>i. i), NewTermState = \<lparr>termBlockOrd = 0, totalTermFreq = 0\<rparr>,
      ReadTermsBlock = (\<lambda>i s. (i, s))\<rparr>"

definition exampleOwner :: Owner where
  "exampleOwner =
     \<lparr>ownerSegment = ''_0'', ownerIn = \<lparr>fileBytes = [], filePos = 0\<rparr>,
      ownerPostings = examplePostings\<rparr>"

definition exampleFST :: FST where
  "exampleFST =
     \<lparr>FirstArc = \<lparr>Label = 0, Output = Some [], NextFinalOutput = Some [4], IsFinal = True,
                  arcTarget = 0\<rparr>,
      FindTargetArc = (\<lambda>l a.
        if l = 97 \<and> arcTarget a = 0
        then Inr (Some \<lparr>Label = 97, Output = Some [], NextFinalOutput = Some [],
                        IsFinal = False, arcTarget = 1\<rparr>)
        else Inr None),
      GetOutput = (\<lambda>input. if input = [] then Inr (Some [4]) else Inr None)\<rparr>"

definition exampleFieldInfo :: FieldInfo where
  "exampleFieldInfo = \<lparr>name = ''body'', indexOptions = INDEX_OPT_DOCS_ONLY\<rparr>"

definition exampleFieldReader :: FieldReader where
  "exampleFieldReader =
     \<lparr>owner = Some exampleOwner, numTerms = 1, fieldInfo = exampleFieldInfo,
      sumTotalTermFreq = -1, sumDocFreq = 1, docCount = 1, indexStartFP = 0,
      rootBlockFP = 1, rootCode = [4], index = Some exampleFST\<rparr>"

text \<open>The cursor that \<open>newSegmentTermsEnum\<close> makes for a field reader.\<close>

definition freshCursor :: "FieldReader \<Rightarrow> Arc \<Rightarrow> SegmentTermsEnum" where
  "freshCursor r a =
     \<lparr>fieldReader = r, tim = None, timReads = 0, stack = [],
      currentFrame = StaticFrame, termExists = False,
      targetBeforeCurrentLength = 0, scratchReader = \<lparr>buf = [], Pos = 0\<rparr>,
      validIndexPrefix = 0, eof = False, curTerm = [], termSpare = [], arcs = [a]\<rparr>"

definition exampleCursor :: SegmentTermsEnum where
  "exampleCursor = freshCursor exampleFieldReader (FirstArc exampleFST)"

text \<open>The same field opened without its index (\<^verbatim>\<open>indexDivisor == -1\<close>), and its cursor.\<close>

definition exampleCursorNoIndex :: SegmentTermsEnum where
  "exampleCursorNoIndex = freshCursor (exampleFieldReader\<lparr>index := None\<rparr>) zeroArc"

text \<open>A dictionary reader that has loaded no field.\<close>

definition exampleEmptyReader :: BlockTreeTermsReader where
  "exampleEmptyReader =
     \<lparr>tim_in = \<lparr>fileBytes = [], filePos = 0\<rparr>, postingsReader = examplePostings,
      fieldsByName = Map.empty, dirOffset = 0, indexDirOffset = 0, segment = ''_0'',
      version = 1\<rparr>"

text \<open>
  A floor block at prefix length 0, as \<open>pushFrame\<close> leaves it for the frame data
  \<open>7, 3, h, 21, p, 41, w, 61\<close>: the code \<open>7\<close> (file pointer 1, has terms, is floor), three
  floor blocks to follow, of which the first begins at the label \<open>h\<close>.
\<close>

definition exampleFloorData :: "byte list" where
  "exampleFloorData = [7, 3, 104, 21, 112, 41, 119, 61]"

definition exampleFloorFrame :: Frame where
  "exampleFloorFrame =
     setFloorData \<lparr>buf = exampleFloorData, Pos = 1\<rparr> exampleFloorData
       ((newFrame examplePostings 0)
          \<lparr>hasTerms := True, hasTermsOrig := True, isFloor := True, arc := Some 0,
           nextEnt := -1, fpOrig := 1, fp := 1, lastSubFP := -1\<rparr>)"

text \<open>
  A leaf block at prefix length 0 with the two terms \<open>a\<close> and \<open>b\<close>, as \<open>loadBlock\<close> leaves
  it: two entries, none read yet, and the suffixes \<open>1, a, 1, b\<close> at the head of the
  buffer of 128 bytes.
\<close>

definition exampleLeafFrame :: Frame where
  "exampleLeafFrame =
     (newFrame examplePostings 0)
       \<lparr>hasTerms := True, hasTermsOrig := True, arc := Some 0, fpOrig := 1, fp := 1,
        lastSubFP := -1, entCount := 2, nextEnt := 0, isLastInFloor := True,
        isLeafBlock := True,
        suffixBytes := [1, 97, 1, 98] @ replicate 124 0,
        suffixesReader := Reset ([1, 97, 1, 98] @ replicate 124 0)\<rparr>"




text \<open>
  A second index, over the same field, for seeks that take several steps. All its
  blocks are without terms and none is a floor block. The root block is at file pointer
  1; \<open>a\<close> (block 2), \<open>abc\<close> (block 3), \<open>gh\<close> (block 4) and \<open>k\<close> (block 5) end on final arcs,
  \<open>ab\<close> and \<open>g\<close> on arcs that are not final; the lookup of \<open>z\<close> behind \<open>k\<close> fails with an
  error of the input, and there is no other arc.
\<close>

definition finalArc :: "int \<Rightarrow> byte \<Rightarrow> nat \<Rightarrow> Arc" where
  "finalArc l code n =
     \<lparr>Label = l, Output = Some [], NextFinalOutput = Some [code], IsFinal = True, arcTarget = n\<rparr>"

definition plainArc :: "int \<Rightarrow> nat \<Rightarrow> Arc" where
  "plainArc l n =
     \<lparr>Label = l, Output = Some [], NextFinalOutput = Some [], IsFinal = False, arcTarget = n\<rparr>"

definition exampleFST2 :: FST where
  "exampleFST2 =
     \<lparr>FirstArc = finalArc 0 4 0,
      FindTargetArc = (\<lambda>l a.
        if arcTarget a = 0 \<and> l = 97 then Inr (Some (finalArc 97 8 1))
        else if arcTarget a = 1 \<and> l = 98 then Inr (Some (plainArc 98 2))
        else if arcTarget a = 2 \<and> l = 99 then Inr (Some (finalArc 99 12 3))
        else if arcTarget a = 0 \<and> l = 103 then Inr (Some (plainArc 103 4))
        else if arcTarget a = 4 \<and> l = 104 then Inr (Some (finalArc 104 16 5))
        else if arcTarget a = 0 \<and> l = 107 then Inr (Some (finalArc 107 20 6))
        else if arcTarget a = 6 \<and> l = 122 then Inl (IOErr ''read past EOF'')
        else Inr None),
      GetOutput = (\<lambda>input.
        if input = [] then Inr (Some [4])
        else if input = [97] then Inr (Some [8])
        else if input = [97, 98, 99] then Inr (Some [12])
        else if input = [103, 104] then Inr (Some [16])
        else if input = [107] then Inr (Some [20])
        else Inr None)\<rparr>"

definition exampleFieldReader2 :: FieldReader where
  "exampleFieldReader2 = exampleFieldReader\<lparr>index := Some exampleFST2\<rparr>"

definition exampleCursor2 :: SegmentTermsEnum where
  "exampleCursor2 = freshCursor exampleFieldReader2 (FirstArc exampleFST2)"

section \<open>The output flags\<close>

lemma flag_has_terms: "(code AND BTT_OUTPUT_FLAG_HAS_TERMS \<noteq> 0) = bit code 1"
proof -
  have "code AND 2 ^ 1 = 0 \<longleftrightarrow> \<not> bit code 1"
    by (rule and_exp_eq_0_iff_not_bit)
  then show ?thesis by (simp add: BTT_OUTPUT_FLAG_HAS_TERMS_def)
qed

lemma flag_is_floor: "(code AND BTT_OUTPUT_FLAG_IS_FLOOR \<noteq> 0) = bit code 0"
proof -
  have "code AND 2 ^ 0 = 0 \<longleftrightarrow> \<not> bit code 0"
    by (rule and_exp_eq_0_iff_not_bit)
  then show ?thesis by (simp add: BTT_OUTPUT_FLAG_IS_FLOOR_def)
qed

lemma rewind_keeps:
  "fpOrig (rewind f) = fpOrig f" "hasTermsOrig (rewind f) = hasTermsOrig f"
  "hasTerms (rewind f) = hasTermsOrig f" "isFloor (rewind f) = isFloor f"
  "prefix (rewind f) = prefix f" "ord (rewind f) = ord f"
  by (simp_all add: rewind_def Let_def split: prod.splits)

lemma setFloorData_keeps:
  "fpOrig (setFloorData rd src f) = fpOrig f"
  "hasTermsOrig (setFloorData rd src f) = hasTermsOrig f"
  "hasTerms (setFloorData rd src f) = hasTerms f"
  "isFloor (setFloorData rd src f) = isFloor f"
  "prefix (setFloorData rd src f) = prefix f" "ord (setFloorData rd src f) = ord f"
  "nextEnt (setFloorData rd src f) = nextEnt f"
  by (simp_all add: setFloorData_def Let_def split: prod.splits)

lemma readVarint_single:
  "0 < n \<Longrightarrow> p < length bs \<Longrightarrow> bs ! p AND 0x80 = 0 \<Longrightarrow>
     readVarint n bs p = Inr (unat (bs ! p), Suc p)"
  by (cases n) simp_all

lemma newFrame_sel:
  "ord (newFrame pr k) = k" "hasTerms (newFrame pr k) = False"
  "hasTermsOrig (newFrame pr k) = False" "isFloor (newFrame pr k) = False"
  "fpOrig (newFrame pr k) = 0" "fp (newFrame pr k) = 0"
  "prefix (newFrame pr k) = 0" "nextEnt (newFrame pr k) = 0" "arc (newFrame pr k) = None"
  "entCount (newFrame pr k) = 0" "isLeafBlock (newFrame pr k) = False"
  "nextFloorLabel (newFrame pr k) = 0" "numFollowFloorBlocks (newFrame pr k) = 0"
  by (simp_all only: newFrame_def Frame.select_convs)

lemma ReadVLong_root_code: "ReadVLong (Reset [4]) = Inr (4, \<lparr>buf = [4], Pos = 1\<rparr>)"
  by (simp add: ReadVLong_def Reset_def readVarint_single)

lemma newFieldReader_root:
  assumes "newFieldReader loadFST own fi nTerms rCode sttf sdf dc startFP indexIn = Inr r"
  shows "\<exists>code rd. ReadVLong (Reset rCode) = Inr (code, rd) \<and> rootBlockFP r = drop_bit 2 code"
  using assms
  by (auto simp: newFieldReader_def bindE_def Let_def BTT_OUTPUT_FLAGS_NUM_BITS_def
      split: if_splits sum.splits option.splits)

lemma newFieldReader_succeeds:
  assumes "0 < nTerms" and "ReadVLong (Reset rCode) = Inr (code, rd)"
    and "\<forall>inp. indexIn = Some inp \<longrightarrow> (\<exists>t. loadFST (inSeek inp startFP) = Inr t)"
  shows "\<exists>r. newFieldReader loadFST own fi nTerms rCode sttf sdf dc startFP indexIn = Inr r
     \<and> rootBlockFP r = drop_bit 2 code"
proof (cases indexIn)
  case None
  with assms show ?thesis
    by (simp add: newFieldReader_def bindE_def BTT_OUTPUT_FLAGS_NUM_BITS_def)
next
  case (Some inp)
  with assms obtain t where "loadFST (inSeek inp startFP) = Inr t"
    by blast
  with Some assms show ?thesis
    by (simp add: newFieldReader_def bindE_def BTT_OUTPUT_FLAGS_NUM_BITS_def)
qed

lemma frame_Inr:
  assumes "frame k c = (Inr j, c')"
  shows "0 \<le> k \<and> j = nat k
     \<and> (\<exists>ext. c' = c\<lparr>stack := stack c @ ext\<rparr> \<and> j < length (stack c @ ext)
            \<and> ord ((stack c @ ext) ! j) = k)"
proof (cases "nat k < length (stack c)")
  case True
  with assms have "0 \<le> k \<and> j = nat k \<and> c' = c\<lparr>stack := stack c @ []\<rparr>
      \<and> j < length (stack c @ []) \<and> ord ((stack c @ []) ! j) = k"
    by (auto simp: frame_def split: if_splits)
  then show ?thesis by blast
next
  case False
  with assms obtain own where own: "owner (fieldReader c) = Some own" and k: "0 \<le> k"
    and j: "j = nat k"
    and c': "c' = c\<lparr>stack := stack c @ map (\<lambda>i. newFrame (ownerPostings own) (int i))
                                           [length (stack c) ..< Suc (nat k)]\<rparr>"
    by (auto simp: frame_def split: if_splits option.splits)
  define ext where "ext = map (\<lambda>i. newFrame (ownerPostings own) (int i))
                            [length (stack c) ..< Suc (nat k)]"
  from False have len: "length ext = Suc (nat k) - length (stack c)"
    by (simp add: ext_def)
  with False have "j < length (stack c @ ext)"
    by (simp add: j)
  moreover from False k have "ord ((stack c @ ext) ! j) = k"
    by (simp add: j nth_append ext_def newFrame_sel)
  moreover have "c' = c\<lparr>stack := stack c @ ext\<rparr>"
    using c' by (simp add: ext_def)
  ultimately show ?thesis
    using k j by blast
qed

lemma frame_succeeds:
  assumes "0 \<le> n" and "owner (fieldReader c) = Some own"
    and "nat n < length (stack c) \<Longrightarrow> ord (stack c ! nat n) = n"
  shows "\<exists>ext. frame n c = (Inr (nat n), c\<lparr>stack := stack c @ ext\<rparr>)
     \<and> nat n < length (stack c @ ext)
     \<and> (stack c @ ext) ! nat n
        = (if nat n < length (stack c) then stack c ! nat n else newFrame (ownerPostings own) n)"
proof (cases "nat n < length (stack c)")
  case True
  with assms have "frame n c = (Inr (nat n), c\<lparr>stack := stack c @ []\<rparr>)"
    by (simp add: frame_def)
  with True show ?thesis
    by (intro exI [of _ "[]"]) simp
next
  case False
  define ext where "ext = map (\<lambda>i. newFrame (ownerPostings own) (int i))
                            [length (stack c) ..< Suc (nat n)]"
  from False assms have fr: "frame n c = (Inr (nat n), c\<lparr>stack := stack c @ ext\<rparr>)"
    by (simp add: frame_def ext_def)
  from False have len: "nat n < length (stack c @ ext)"
    by (simp add: ext_def)
  from False assms(1) have "(stack c @ ext) ! nat n = newFrame (ownerPostings own) n"
    by (simp add: ext_def nth_append)
  with fr len False show ?thesis
    by (intro exI [of _ ext]) simp
qed

lemma frameAt_same:
  "stack c' = stack c \<Longrightarrow> fieldReader c' = fieldReader c \<Longrightarrow> frameAt c' p = frameAt c p"
  by (cases p) (simp_all add: frameAt_def)

lemma frameAt_stack_update:
  "frameAt c p = Some cur \<Longrightarrow> ord f = ord ((stack c @ ext) ! k) \<Longrightarrow>
     \<exists>cur'. frameAt (c\<lparr>stack := (stack c @ ext)[k := f]\<rparr>) p = Some cur' \<and> ord cur' = ord cur"
  by (cases p) (auto simp: frameAt_def nth_append nth_list_update split: option.splits if_splits)

lemma pushFrameAt_Inr:
  assumes "pushFrameAt a fpSeek len c = (Inr k, c')"
  shows "\<exists>cur f'. frameAt c (currentFrame c) = Some cur \<and> int k = 1 + ord cur
     \<and> (\<exists>ext. c' = c\<lparr>stack := (stack c @ ext)[k := f']\<rparr> \<and> k < length (stack c @ ext)
            \<and> ord f' = int k \<and> prefix f' = len \<and> fpOrig f' = fpSeek
            \<and> isFloor f' = isFloor ((stack c @ ext) ! k)
            \<and> hasTermsOrig f' = hasTermsOrig ((stack c @ ext) ! k)
            \<and> (hasTerms f' = hasTerms ((stack c @ ext) ! k) \<or> hasTerms f' = hasTermsOrig f'))"
proof -
  from assms obtain cur where cur: "frameAt c (currentFrame c) = Some cur"
    by (auto simp: pushFrameAt_def split: option.splits)
  from assms cur obtain j c1 where fr: "frame (1 + ord cur) c = (Inr j, c1)"
    by (auto simp: pushFrameAt_def split: prod.splits sum.splits)
  from frame_Inr [OF fr] obtain ext where
    j: "0 \<le> 1 + ord cur" "j = nat (1 + ord cur)" and c1: "c1 = c\<lparr>stack := stack c @ ext\<rparr>"
    and jl: "j < length (stack c @ ext)" and jo: "ord ((stack c @ ext) ! j) = 1 + ord cur"
    by blast
  define f where "f = ((stack c @ ext) ! j)\<lparr>arc := Some a\<rparr>"
  show ?thesis
  proof (cases "fpOrig f = fpSeek \<and> nextEnt f \<noteq> -1")
    case True
    define f1 where "f1 = (if targetBeforeCurrentLength c < prefix f then rewind f else f)"
    from assms cur fr True
    have res: "k = j" "c' = c\<lparr>stack := (stack c @ ext)[j := f1]\<rparr>" "len = prefix f1"
      by (auto simp: pushFrameAt_def Let_def c1 f_def f1_def split: if_splits)
    have "ord f1 = int j" "fpOrig f1 = fpSeek" "isFloor f1 = isFloor ((stack c @ ext) ! j)"
      "hasTermsOrig f1 = hasTermsOrig ((stack c @ ext) ! j)"
      "hasTerms f1 = hasTerms ((stack c @ ext) ! j) \<or> hasTerms f1 = hasTermsOrig f1"
      using True j jo by (auto simp: f1_def f_def rewind_keeps)
    with cur j jl res show ?thesis
      by auto
  next
    case False
    define f1 where "f1 = f\<lparr>nextEnt := -1, prefix := len,
        state := (state f)\<lparr>termBlockOrd := 0\<rparr>, fpOrig := fpSeek, fp := fpSeek, lastSubFP := -1\<rparr>"
    from assms cur fr False
    have res: "k = j" "c' = c\<lparr>stack := (stack c @ ext)[j := f1]\<rparr>"
      by (auto simp: pushFrameAt_def Let_def c1 f_def f1_def split: if_splits)
    have "ord f1 = int j" "fpOrig f1 = fpSeek" "prefix f1 = len"
      "isFloor f1 = isFloor ((stack c @ ext) ! j)"
      "hasTermsOrig f1 = hasTermsOrig ((stack c @ ext) ! j)"
      "hasTerms f1 = hasTerms ((stack c @ ext) ! j)"
      using j jo by (auto simp: f1_def f_def)
    with cur j jl res show ?thesis
      by auto
  qed
qed

lemma pushFrameAt_succeeds:
  assumes cur: "frameAt c (currentFrame c) = Some cur" and lo: "- 1 \<le> ord cur"
    and k: "k = nat (1 + ord cur)" and inr: "k < length (stack c)"
    and ok: "ord (stack c ! k) = int k"
    and pre: "fpOrig (stack c ! k) = fpSeek \<and> nextEnt (stack c ! k) \<noteq> - 1
               \<longrightarrow> prefix (stack c ! k) = len"
  shows "\<exists>c'. pushFrameAt a fpSeek len c = (Inr k, c')"
proof -
  from lo k ok inr have fr: "frame (1 + ord cur) c = (Inr k, c)"
    by (simp add: frame_def)
  show ?thesis
  proof (cases "fpOrig (stack c ! k) = fpSeek \<and> nextEnt (stack c ! k) \<noteq> - 1")
    case True
    with pre have "prefix (stack c ! k) = len" by simp
    with True cur fr show ?thesis
      by (simp add: pushFrameAt_def Let_def rewind_keeps)
  next
    case False
    with cur fr show ?thesis
      by (auto simp: pushFrameAt_def Let_def)
  qed
qed

lemma pushFrame_Inr:
  assumes "pushFrame a fd len c = (Inr k, c')"
  shows "\<exists>code rd cur f'. ReadVLong (Reset fd) = Inr (code, rd)
     \<and> frameAt c (currentFrame c) = Some cur \<and> int k = 1 + ord cur
     \<and> (\<exists>ext. c' = c\<lparr>scratchReader := rd, stack := (stack c @ ext)[k := f']\<rparr>
            \<and> k < length (stack c @ ext))
     \<and> ord f' = int k \<and> prefix f' = len \<and> fpOrig f' = drop_bit 2 code
     \<and> hasTermsOrig f' = bit code 1 \<and> hasTerms f' = bit code 1 \<and> isFloor f' = bit code 0"
proof -
  from assms obtain code rd where rv: "ReadVLong (Reset fd) = Inr (code, rd)"
    by (auto simp: pushFrame_def Let_def split: sum.splits)
  define c2 where "c2 = c\<lparr>scratchReader := rd\<rparr>"
  have same: "frameAt c2 (currentFrame c2) = frameAt c (currentFrame c)"
    using frameAt_same [of c2 c "currentFrame c"] by (simp add: c2_def)
  from assms rv obtain cur where cur2: "frameAt c2 (currentFrame c2) = Some cur"
    by (auto simp: pushFrame_def Let_def c2_def split: option.splits)
  with same have cur: "frameAt c (currentFrame c) = Some cur"
    by simp
  from assms rv cur2 obtain j c3 where fr: "frame (1 + ord cur) c2 = (Inr j, c3)"
    by (auto simp: pushFrame_def Let_def c2_def split: sum.splits prod.splits)
  from frame_Inr [OF fr] obtain ext where
    j: "0 \<le> 1 + ord cur" "j = nat (1 + ord cur)" and c3: "c3 = c2\<lparr>stack := stack c @ ext\<rparr>"
    and jl: "j < length (stack c @ ext)" and jo: "ord ((stack c @ ext) ! j) = 1 + ord cur"
    by (auto simp: c2_def)
  define f1 where "f1 = ((stack c @ ext) ! j)\<lparr>hasTerms := (code AND BTT_OUTPUT_FLAG_HAS_TERMS \<noteq> 0),
       hasTermsOrig := (code AND BTT_OUTPUT_FLAG_HAS_TERMS \<noteq> 0),
       isFloor := (code AND BTT_OUTPUT_FLAG_IS_FLOOR \<noteq> 0)\<rparr>"
  define f2 where "f2 = (if isFloor f1 then setFloorData rd fd f1 else f1)"
  define c4 where "c4 = c2\<lparr>stack := (stack c @ ext)[j := f2]\<rparr>"
  from assms rv cur2 fr
  have pa: "pushFrameAt a (drop_bit BTT_OUTPUT_FLAGS_NUM_BITS code) len c4 = (Inr k, c')"
    by (auto simp: pushFrame_def Let_def c2_def c3 c4_def f2_def f1_def)
  have f2_props: "ord f2 = ord ((stack c @ ext) ! j)" "hasTerms f2 = bit code 1"
    "hasTermsOrig f2 = bit code 1" "isFloor f2 = bit code 0"
    by (simp_all add: f2_def f1_def setFloorData_keeps flag_has_terms flag_is_floor)
  have c4': "c4 = c2\<lparr>stack := (stack c2 @ ext)[j := f2]\<rparr>"
    by (simp add: c4_def c2_def)
  have "frameAt c2 (currentFrame c2) = Some cur" "ord f2 = ord ((stack c2 @ ext) ! j)"
    using cur2 f2_props(1) by (simp_all add: c2_def)
  from frameAt_stack_update [OF this]
  obtain cur' where cur': "frameAt c4 (currentFrame c4) = Some cur'" "ord cur' = ord cur"
    by (auto simp: c4' c2_def)
  from pushFrameAt_Inr [OF pa] cur' obtain f' ext' where
    k: "int k = 1 + ord cur" and c': "c' = c4\<lparr>stack := (stack c4 @ ext')[k := f']\<rparr>"
    and kl: "k < length (stack c4 @ ext')"
    and f': "ord f' = int k" "prefix f' = len" "fpOrig f' = drop_bit BTT_OUTPUT_FLAGS_NUM_BITS code"
      "isFloor f' = isFloor ((stack c4 @ ext') ! k)"
      "hasTermsOrig f' = hasTermsOrig ((stack c4 @ ext') ! k)"
      "hasTerms f' = hasTerms ((stack c4 @ ext') ! k) \<or> hasTerms f' = hasTermsOrig f'"
    by auto
  from k j have kj: "k = j"
    by simp
  have at: "(stack c4 @ ext') ! k = f2"
    using jl kj by (simp add: c4_def nth_append)
  have shape: "c' = c\<lparr>scratchReader := rd, stack := (stack c @ (ext @ ext'))[k := f']\<rparr>"
    using jl kj by (simp add: c' c4_def c2_def list_update_append)
  have kl': "k < length (stack c @ (ext @ ext'))"
    using kl by (simp add: c4_def)
  from f' at f2_props have flags: "hasTermsOrig f' = bit code 1" "hasTerms f' = bit code 1"
    "isFloor f' = bit code 0"
    by auto
  from shape kl' have "\<exists>ext. c' = c\<lparr>scratchReader := rd, stack := (stack c @ ext)[k := f']\<rparr>
            \<and> k < length (stack c @ ext)"
    by blast
  with rv cur k f' flags show ?thesis
    by (auto simp: BTT_OUTPUT_FLAGS_NUM_BITS_def)
qed

lemma pushFrame_unfold:
  assumes rv: "ReadVLong (Reset fd) = Inr (code, rd)"
    and cur: "frameAt c (currentFrame c) = Some cur"
    and fr: "frame (1 + ord cur) (c\<lparr>scratchReader := rd\<rparr>) = (Inr k, c3)"
    and f1: "f1 = (stack c3 ! k)\<lparr>hasTerms := (code AND BTT_OUTPUT_FLAG_HAS_TERMS \<noteq> 0),
       hasTermsOrig := (code AND BTT_OUTPUT_FLAG_HAS_TERMS \<noteq> 0),
       isFloor := (code AND BTT_OUTPUT_FLAG_IS_FLOOR \<noteq> 0)\<rparr>"
    and f2: "f2 = (if isFloor f1 then setFloorData rd fd f1 else f1)"
  shows "pushFrame a fd len c
     = pushFrameAt a (drop_bit 2 code) len (c3\<lparr>stack := (stack c3)[k := f2]\<rparr>)"
proof -
  have same: "frameAt (c\<lparr>scratchReader := rd\<rparr>) (currentFrame c) = Some cur"
    using frameAt_same [of "c\<lparr>scratchReader := rd\<rparr>" c "currentFrame c"] cur by simp
  show ?thesis
    using rv same fr
    by (simp add: pushFrame_def Let_def f1 f2 BTT_OUTPUT_FLAGS_NUM_BITS_def)
qed

lemma pushFrame_succeeds:
  assumes rv: "ReadVLong (Reset fd) = Inr (code, rd)"
    and cur: "frameAt c (currentFrame c) = Some cur"
    and own: "owner (fieldReader c) = Some own"
    and lo: "- 1 \<le> ord cur" and k: "k = nat (1 + ord cur)"
    and old: "old = (if k < length (stack c) then stack c ! k
                     else newFrame (ownerPostings own) (int k))"
    and oo: "ord old = int k"
    and pre: "fpOrig old = drop_bit 2 code \<and> nextEnt old \<noteq> - 1 \<longrightarrow> prefix old = len"
  shows "\<exists>c'. pushFrame a fd len c = (Inr k, c')"
proof -
  define c2 where "c2 = c\<lparr>scratchReader := rd\<rparr>"
  have c2: "stack c2 = stack c" "fieldReader c2 = fieldReader c" "currentFrame c2 = currentFrame c"
    by (simp_all add: c2_def)
  from lo have n0: "0 \<le> 1 + ord cur" by simp
  have inr: "nat (1 + ord cur) < length (stack c2) \<Longrightarrow>
               ord (stack c2 ! nat (1 + ord cur)) = 1 + ord cur"
    using oo old k lo by (simp add: c2)
  from frame_succeeds [OF n0 _ inr, of own] own obtain ext where
    fr: "frame (1 + ord cur) c2 = (Inr k, c2\<lparr>stack := stack c2 @ ext\<rparr>)"
    and kl: "k < length (stack c2 @ ext)"
    and at: "(stack c2 @ ext) ! k = old"
    using k old lo by (auto simp: c2)
  define c3 where "c3 = c2\<lparr>stack := stack c2 @ ext\<rparr>"
  define f1 where "f1 = (stack c3 ! k)\<lparr>hasTerms := (code AND BTT_OUTPUT_FLAG_HAS_TERMS \<noteq> 0),
       hasTermsOrig := (code AND BTT_OUTPUT_FLAG_HAS_TERMS \<noteq> 0),
       isFloor := (code AND BTT_OUTPUT_FLAG_IS_FLOOR \<noteq> 0)\<rparr>"
  define f2 where "f2 = (if isFloor f1 then setFloorData rd fd f1 else f1)"
  define c4 where "c4 = c3\<lparr>stack := (stack c3)[k := f2]\<rparr>"
  have st3: "stack c3 ! k = old" "k < length (stack c3)"
    using at kl by (simp_all add: c3_def)
  have f2_props: "ord f2 = ord old" "fpOrig f2 = fpOrig old" "nextEnt f2 = nextEnt old"
    "prefix f2 = prefix old"
    by (simp_all add: f2_def f1_def setFloorData_keeps st3)
  from fr have fr': "frame (1 + ord cur) (c\<lparr>scratchReader := rd\<rparr>) = (Inr k, c3)"
    by (simp add: c2_def c3_def)
  from pushFrame_unfold [OF rv cur fr' f1_def f2_def]
  have unf: "pushFrame a fd len c = pushFrameAt a (drop_bit 2 code) len c4"
    by (simp add: c4_def)
  have cur2: "frameAt c2 (currentFrame c2) = Some cur"
    using frameAt_same [of c2 c "currentFrame c"] cur by (simp add: c2)
  have "ord f2 = ord ((stack c2 @ ext) ! k)"
    using f2_props(1) at by simp
  from frameAt_stack_update [OF cur2 this]
  obtain cur' where cur': "frameAt c4 (currentFrame c4) = Some cur'" "ord cur' = ord cur"
    by (auto simp: c4_def c3_def)
  have st4: "k < length (stack c4)" "stack c4 ! k = f2"
    using st3 by (simp_all add: c4_def)
  have "\<exists>c'. pushFrameAt a (drop_bit 2 code) len c4 = (Inr k, c')"
  proof (rule pushFrameAt_succeeds [OF cur'(1)])
    show "- 1 \<le> ord cur'" using lo cur'(2) by simp
    show "k = nat (1 + ord cur')" using k cur'(2) by simp
    show "k < length (stack c4)" by (rule st4(1))
    show "ord (stack c4 ! k) = int k" using st4(2) f2_props(1) oo by simp
    show "fpOrig (stack c4 ! k) = drop_bit 2 code \<and> nextEnt (stack c4 ! k) \<noteq> - 1
            \<longrightarrow> prefix (stack c4 ! k) = len"
      using pre st4(2) f2_props by simp
  qed
  with unf show ?thesis by simp
qed

lemma pushFrame_decodes:
  assumes "pushFrame a frameData len c = (Inr k, c')"
  shows "\<exists>code rd. ReadVLong (Reset frameData) = Inr (code, rd) \<and> k < length (stack c')
     \<and> fpOrig (stack c' ! k) = drop_bit 2 code \<and> prefix (stack c' ! k) = len
     \<and> hasTermsOrig (stack c' ! k) = bit code 1
     \<and> hasTerms (stack c' ! k) = bit code 1 \<and> isFloor (stack c' ! k) = bit code 0"
proof -
  from pushFrame_Inr [OF assms] obtain code rd f' ext where
    rv: "ReadVLong (Reset frameData) = Inr (code, rd)"
    and c': "c' = c\<lparr>scratchReader := rd, stack := (stack c @ ext)[k := f']\<rparr>"
    and kl: "k < length (stack c @ ext)"
    and f': "prefix f' = len" "fpOrig f' = drop_bit 2 code" "hasTermsOrig f' = bit code 1"
      "hasTerms f' = bit code 1" "isFloor f' = bit code 0"
    by blast
  from c' kl have "k < length (stack c')" "stack c' ! k = f'"
    by simp_all
  with rv f' show ?thesis
    by simp
qed

lemma pushFrame_pushes:
  assumes rv: "ReadVLong (Reset fd) = Inr (code, rd)"
    and cur: "frameAt c (currentFrame c) = Some cur"
    and own: "owner (fieldReader c) = Some own"
    and lo: "- 1 \<le> ord cur" and k: "k = nat (1 + ord cur)"
    and old: "old = (if k < length (stack c) then stack c ! k
                     else newFrame (ownerPostings own) (int k))"
    and oo: "ord old = int k"
    and pre: "fpOrig old = drop_bit 2 code \<and> nextEnt old \<noteq> - 1 \<longrightarrow> prefix old = len"
  shows "\<exists>c'. pushFrame a fd len c = (Inr k, c') \<and> k < length (stack c')
     \<and> fpOrig (stack c' ! k) = drop_bit 2 code
     \<and> hasTermsOrig (stack c' ! k) = bit code 1
     \<and> hasTerms (stack c' ! k) = bit code 1
     \<and> isFloor (stack c' ! k) = bit code 0"
proof -
  from pushFrame_succeeds [OF rv cur own lo k old oo pre]
  obtain c' where pf: "pushFrame a fd len c = (Inr k, c')"
    by blast
  from pushFrame_decodes [OF pf] rv
  have "k < length (stack c') \<and> fpOrig (stack c' ! k) = drop_bit 2 code
     \<and> hasTermsOrig (stack c' ! k) = bit code 1
     \<and> hasTerms (stack c' ! k) = bit code 1
     \<and> isFloor (stack c' ! k) = bit code 0"
    by auto
  with pf show ?thesis by blast
qed

lemma ReadVLong_floor_code:
  "ReadVLong (Reset exampleFloorData) = Inr (7, \<lparr>buf = exampleFloorData, Pos = 1\<rparr>)"
  by (simp add: ReadVLong_def Reset_def readVarint_single exampleFloorData_def)

lemma exampleCursor_static:
  "frameAt exampleCursor (currentFrame exampleCursor) = Some (newFrame examplePostings (- 1))"
  "owner (fieldReader exampleCursor) = Some exampleOwner" "stack exampleCursor = []"
  by (simp_all add: frameAt_def exampleCursor_def freshCursor_def exampleFieldReader_def
      exampleOwner_def)

lemma code7_bits: "bit (7 :: int64) 1" "bit (7 :: int64) 0" "drop_bit 2 (7 :: int64) = 1"
  by (simp_all add: bit_iff_odd drop_bit_eq_div)

text \<open>
  C8. The code at the head of a root code and of a frame's data is a vLong whose bits
  above the two lowest are the block's file pointer, whose bit 1 says that the block has
  terms and whose bit 0 says that it is a floor block: the field reader's \<open>rootBlockFP\<close>
  is the code shifted right by two, and the frame that \<open>pushFrame\<close> returns has
  \<open>fpOrig\<close>, \<open>hasTerms\<close> (with \<open>hasTermsOrig\<close>) and \<open>isFloor\<close> read from the code in that
  way. Both calls do return: \<open>newFieldReader\<close> for a field with terms whose root code is a
  vLong and whose index loads, \<open>pushFrame\<close> on a cursor whose next frame is in its place and
  is not a loaded frame of the same block at another prefix length.
\<close>

theorem output_code_decoding:
  "(newFieldReader loadFST own fi nTerms rCode sttf sdf dc startFP indexIn = Inr r \<longrightarrow>
      (\<exists>code rd. ReadVLong (Reset rCode) = Inr (code, rd) \<and> rootBlockFP r = drop_bit 2 code))
   \<and> (pushFrame a frameData len c = (Inr k, c') \<longrightarrow>
      (\<exists>code rd. ReadVLong (Reset frameData) = Inr (code, rd) \<and> k < length (stack c')
         \<and> fpOrig (stack c' ! k) = drop_bit 2 code
         \<and> hasTermsOrig (stack c' ! k) = bit code 1
         \<and> hasTerms (stack c' ! k) = bit code 1
         \<and> isFloor (stack c' ! k) = bit code 0))
   \<and> (0 < nTerms \<and> ReadVLong (Reset rCode) = Inr (rootv, rootrd)
        \<and> (\<forall>inp. indexIn = Some inp \<longrightarrow> (\<exists>t. loadFST (inSeek inp startFP) = Inr t)) \<longrightarrow>
      (\<exists>r'. newFieldReader loadFST own fi nTerms rCode sttf sdf dc startFP indexIn = Inr r'
         \<and> rootBlockFP r' = drop_bit 2 rootv))
   \<and> (ReadVLong (Reset frameData) = Inr (framev, framerd)
        \<and> frameAt c (currentFrame c) = Some cur \<and> owner (fieldReader c) = Some cown
        \<and> - 1 \<le> ord cur \<and> j = nat (1 + ord cur)
        \<and> old = (if j < length (stack c) then stack c ! j
                  else newFrame (ownerPostings cown) (int j))
        \<and> ord old = int j
        \<and> (fpOrig old = drop_bit 2 framev \<and> nextEnt old \<noteq> - 1 \<longrightarrow> prefix old = len) \<longrightarrow>
      (\<exists>c''. pushFrame a frameData len c = (Inr j, c'') \<and> j < length (stack c'')
         \<and> fpOrig (stack c'' ! j) = drop_bit 2 framev
         \<and> hasTermsOrig (stack c'' ! j) = bit framev 1
         \<and> hasTerms (stack c'' ! j) = bit framev 1
         \<and> isFloor (stack c'' ! j) = bit framev 0))"
proof (intro conjI impI)
  assume "newFieldReader loadFST own fi nTerms rCode sttf sdf dc startFP indexIn = Inr r"
  then show "\<exists>code rd. ReadVLong (Reset rCode) = Inr (code, rd) \<and> rootBlockFP r = drop_bit 2 code"
    by (rule newFieldReader_root)
next
  assume "pushFrame a frameData len c = (Inr k, c')"
  from pushFrame_decodes [OF this]
  show "\<exists>code rd. ReadVLong (Reset frameData) = Inr (code, rd) \<and> k < length (stack c')
         \<and> fpOrig (stack c' ! k) = drop_bit 2 code
         \<and> hasTermsOrig (stack c' ! k) = bit code 1
         \<and> hasTerms (stack c' ! k) = bit code 1
         \<and> isFloor (stack c' ! k) = bit code 0"
    by blast
next
  assume "0 < nTerms \<and> ReadVLong (Reset rCode) = Inr (rootv, rootrd)
        \<and> (\<forall>inp. indexIn = Some inp \<longrightarrow> (\<exists>t. loadFST (inSeek inp startFP) = Inr t))"
  then show "\<exists>r'. newFieldReader loadFST own fi nTerms rCode sttf sdf dc startFP indexIn = Inr r'
         \<and> rootBlockFP r' = drop_bit 2 rootv"
    using newFieldReader_succeeds by blast
next
  assume h: "ReadVLong (Reset frameData) = Inr (framev, framerd)
        \<and> frameAt c (currentFrame c) = Some cur \<and> owner (fieldReader c) = Some cown
        \<and> - 1 \<le> ord cur \<and> j = nat (1 + ord cur)
        \<and> old = (if j < length (stack c) then stack c ! j
                  else newFrame (ownerPostings cown) (int j))
        \<and> ord old = int j
        \<and> (fpOrig old = drop_bit 2 framev \<and> nextEnt old \<noteq> - 1 \<longrightarrow> prefix old = len)"
  show "\<exists>c''. pushFrame a frameData len c = (Inr j, c'') \<and> j < length (stack c'')
         \<and> fpOrig (stack c'' ! j) = drop_bit 2 framev
         \<and> hasTermsOrig (stack c'' ! j) = bit framev 1
         \<and> hasTerms (stack c'' ! j) = bit framev 1
         \<and> isFloor (stack c'' ! j) = bit framev 0"
  proof (rule pushFrame_pushes [of frameData framev framerd c cur cown j old len a])
    from h show "ReadVLong (Reset frameData) = Inr (framev, framerd)" by blast
    from h show "frameAt c (currentFrame c) = Some cur" by blast
    from h show "owner (fieldReader c) = Some cown" by blast
    from h show "- 1 \<le> ord cur" by blast
    from h show "j = nat (1 + ord cur)" by blast
    from h show "old = (if j < length (stack c) then stack c ! j
                  else newFrame (ownerPostings cown) (int j))" by blast
    from h show "ord old = int j" by blast
    from h show "fpOrig old = drop_bit 2 framev \<and> nextEnt old \<noteq> - 1 \<longrightarrow> prefix old = len"
      by blast
  qed
qed

theorem output_code_decoding_witness:
  "ReadVLong (Reset exampleFloorData) = Inr (7, \<lparr>buf = exampleFloorData, Pos = 1\<rparr>)
   \<and> (\<exists>r. newFieldReader (\<lambda>i. Inr exampleFST) exampleOwner exampleFieldInfo 1 exampleFloorData
              (- 1) 1 1 0 None = Inr r \<and> rootBlockFP r = 1)
   \<and> fst (pushFrame 0 exampleFloorData 0 exampleCursor) = Inr 0
   \<and> fpOrig (stack (snd (pushFrame 0 exampleFloorData 0 exampleCursor)) ! 0) = 1
   \<and> hasTermsOrig (stack (snd (pushFrame 0 exampleFloorData 0 exampleCursor)) ! 0)
   \<and> hasTerms (stack (snd (pushFrame 0 exampleFloorData 0 exampleCursor)) ! 0)
   \<and> isFloor (stack (snd (pushFrame 0 exampleFloorData 0 exampleCursor)) ! 0)"
proof -
  note inst = output_code_decoding [where nTerms = 1 and rCode = exampleFloorData
      and rootv = 7 and rootrd = "\<lparr>buf = exampleFloorData, Pos = 1\<rparr>" and indexIn = None
      and loadFST = "\<lambda>i. Inr exampleFST" and own = exampleOwner and fi = exampleFieldInfo
      and sttf = "- 1" and sdf = 1 and dc = 1 and startFP = 0
      and frameData = exampleFloorData and framev = 7
      and framerd = "\<lparr>buf = exampleFloorData, Pos = 1\<rparr>" and c = exampleCursor
      and cur = "newFrame examplePostings (- 1)" and cown = exampleOwner and j = 0
      and old = "newFrame examplePostings 0" and len = 0 and a = 0]
  have rootH: "0 < (1 :: int)
      \<and> ReadVLong (Reset exampleFloorData) = Inr (7, \<lparr>buf = exampleFloorData, Pos = 1\<rparr>)
      \<and> (\<forall>inp. (None :: IndexInput option) = Some inp
            \<longrightarrow> (\<exists>t. (\<lambda>i. Inr exampleFST) (inSeek inp 0) = (Inr t :: error + FST)))"
    by (simp add: ReadVLong_floor_code)
  from inst [THEN conjunct2, THEN conjunct2, THEN conjunct1, rule_format, OF rootH]
  have root: "\<exists>r. newFieldReader (\<lambda>i. Inr exampleFST) exampleOwner exampleFieldInfo 1
      exampleFloorData (- 1) 1 1 0 None = Inr r \<and> rootBlockFP r = 1"
    by (simp add: code7_bits)
  have pushH: "ReadVLong (Reset exampleFloorData) = Inr (7, \<lparr>buf = exampleFloorData, Pos = 1\<rparr>)
        \<and> frameAt exampleCursor (currentFrame exampleCursor) = Some (newFrame examplePostings (- 1))
        \<and> owner (fieldReader exampleCursor) = Some exampleOwner
        \<and> - 1 \<le> ord (newFrame examplePostings (- 1))
        \<and> (0 :: nat) = nat (1 + ord (newFrame examplePostings (- 1)))
        \<and> newFrame examplePostings 0
            = (if 0 < length (stack exampleCursor) then stack exampleCursor ! 0
               else newFrame (ownerPostings exampleOwner) (int 0))
        \<and> ord (newFrame examplePostings 0) = int 0
        \<and> (fpOrig (newFrame examplePostings 0) = drop_bit 2 7
              \<and> nextEnt (newFrame examplePostings 0) \<noteq> - 1
            \<longrightarrow> prefix (newFrame examplePostings 0) = 0)"
    by (simp add: ReadVLong_floor_code exampleCursor_static newFrame_sel exampleOwner_def)
  from inst [THEN conjunct2, THEN conjunct2, THEN conjunct2, rule_format, OF pushH]
  obtain c'' where pf: "pushFrame 0 exampleFloorData 0 exampleCursor = (Inr 0, c'')"
    and fl: "fpOrig (stack c'' ! 0) = drop_bit 2 7" "hasTermsOrig (stack c'' ! 0) = bit (7 :: int64) 1"
      "hasTerms (stack c'' ! 0) = bit (7 :: int64) 1" "isFloor (stack c'' ! 0) = bit (7 :: int64) 0"
    by blast
  from pf have "fst (pushFrame 0 exampleFloorData 0 exampleCursor) = Inr 0"
    "snd (pushFrame 0 exampleFloorData 0 exampleCursor) = c''"
    by simp_all
  with fl have "fst (pushFrame 0 exampleFloorData 0 exampleCursor) = Inr 0
   \<and> fpOrig (stack (snd (pushFrame 0 exampleFloorData 0 exampleCursor)) ! 0) = 1
   \<and> hasTermsOrig (stack (snd (pushFrame 0 exampleFloorData 0 exampleCursor)) ! 0)
   \<and> hasTerms (stack (snd (pushFrame 0 exampleFloorData 0 exampleCursor)) ! 0)
   \<and> isFloor (stack (snd (pushFrame 0 exampleFloorData 0 exampleCursor)) ! 0)"
    by (simp add: code7_bits)
  with root ReadVLong_floor_code show ?thesis
    by blast
qed

section \<open>Frames: the floor scan and the leaf scan\<close>

lemma scanToFloorFrame_skip:
  "\<not> isFloor f \<or> int (length target) \<le> prefix f \<Longrightarrow> scanToFloorFrame f target = Inr f"
  by (auto simp: scanToFloorFrame_def)

lemma scanToFloorFrame_stay:
  "isFloor f \<Longrightarrow> 0 \<le> prefix f \<Longrightarrow> prefix f < int (length target) \<Longrightarrow>
     uint (target ! nat (prefix f)) < nextFloorLabel f \<Longrightarrow> scanToFloorFrame f target = Inr f"
  by (auto simp: scanToFloorFrame_def Let_def)


lemma exampleFloorFrame_fields:
  "isFloor exampleFloorFrame" "prefix exampleFloorFrame = 0"
  "nextFloorLabel exampleFloorFrame = 104" "numFollowFloorBlocks exampleFloorFrame = 3"
  "fp exampleFloorFrame = 1" "nextEnt exampleFloorFrame = -1"
  by (simp_all add: exampleFloorFrame_def exampleFloorData_def setFloorData_def Let_def
      ReadVIntIgnoreErr_def ReadByteIgnoreErr_def ReadVInt_def ReadByte_def Reset_def
      readVarint_single newFrame_sel)

text \<open>
  C4, at a target beyond the first floor block. On the floor block whose next floor
  label is \<open>h\<close>, \<open>scanToFloorFrame\<close> returns with the frame as it was for the target \<open>b\<close>;
  for the targets \<open>k\<close> and \<open>p\<close> it reads no floor data and selects no block: it panics
  with \<open>not implemented yet\<close>.
\<close>

theorem scanToFloorFrame_walk_not_implemented:
  "scanToFloorFrame exampleFloorFrame [107] = Inl (Panic ''not implemented yet'')
   \<and> scanToFloorFrame exampleFloorFrame [112] = Inl (Panic ''not implemented yet'')
   \<and> scanToFloorFrame exampleFloorFrame [98] = Inr exampleFloorFrame"
  by (simp add: scanToFloorFrame_def exampleFloorFrame_fields)

theorem scanToFloorFrame_walk_not_implemented_witness:
  "isFloor exampleFloorFrame \<and> prefix exampleFloorFrame < int (length [107 :: byte])
   \<and> \<not> uint (107 :: byte) < nextFloorLabel exampleFloorFrame
   \<and> scanToFloorFrame exampleFloorFrame [107] = Inl (Panic ''not implemented yet'')"
  using scanToFloorFrame_walk_not_implemented
  by (simp add: exampleFloorFrame_fields)

lemma exampleLeafFrame_ReadVInt0:
  "ReadVInt (Reset ([1, 97, 1, 98] @ replicate 124 0))
     = Inr (1, \<lparr>buf = [1, 97, 1, 98] @ replicate 124 0, Pos = 1\<rparr>)"
  by (simp add: ReadVInt_def Reset_def readVarint_single)

text \<open>
  C1, at a block with the terms \<open>a\<close> and \<open>b\<close> and the target \<open>b\<close>. \<open>scanToTermLeaf\<close> does
  not reach its loop: it panics in \<open>prefixMatches\<close> with \<open>not implemented yet\<close>. The loop
  itself, started on the same block, answers \<open>NOT_FOUND\<close> at the entry \<open>a\<close>, which is
  before the target: the difference of the bytes \<open>a\<close> and \<open>b\<close> is the byte 255.
\<close>

theorem scanToTermLeaf_not_implemented:
  "fst (scanToTermLeaf [98] True exampleLeafFrame [] False) = Inl (Panic ''not implemented yet'')
   \<and> fst (scanLeafLoop [98] True True exampleLeafFrame []) = Inr SEEK_STATUS_NOT_FOUND"
proof
  show "fst (scanToTermLeaf [98] True exampleLeafFrame [] False)
          = Inl (Panic ''not implemented yet'')"
    by (simp add: scanToTermLeaf_def prefixMatches_def exampleLeafFrame_def newFrame_sel)
  have "uint ((97 :: byte) - 98) = 255"
    by (simp add: unsigned_minus_1_eq_mask mask_eq_exp_minus_1)
  then show "fst (scanLeafLoop [98] True True exampleLeafFrame []) = Inr SEEK_STATUS_NOT_FOUND"
    using exampleLeafFrame_ReadVInt0
    by (subst scanLeafLoop.simps)
       (simp add: exampleLeafFrame_def newFrame_sel SkipBytes_def compareSuffix.simps)
qed

section \<open>The field reader and the dictionary reader\<close>

text \<open>
  C6, as the code has it. A directory entry with \<open>numTerms \<le> 0\<close> gets no field reader:
  \<open>newFieldReader\<close> panics with the message of an assertion, \<open>assert fail\<close>, before it
  reads the root code or loads the index. The panic is not one of the errors that
  describe a corrupt index and names no field.
\<close>

theorem newFieldReader_no_terms_panics:
  "nTerms \<le> 0 \<Longrightarrow>
     newFieldReader loadFST own fi nTerms rCode sttf sdf dc startFP indexIn
       = Inl (Panic ''assert fail'')"
  by (simp add: newFieldReader_def)

theorem newFieldReader_no_terms_panics_witness:
  "(0::int) \<le> 0 \<and>
   newFieldReader (\<lambda>i. Inr exampleFST) exampleOwner exampleFieldInfo 0 [4] (-1) 1 1 0 None
     = Inl (Panic ''assert fail'')"
  using newFieldReader_no_terms_panics [of 0 "\<lambda>i. Inr exampleFST" exampleOwner exampleFieldInfo
      "[4]" "-1" 1 1 0 None]
  by simp

text \<open>
  C6, as the claim has it, fails for the field \<open>body\<close> with \<open>numTerms = 0\<close>: the
  constructor's failure is a panic, which is no corrupt-index error and does not mention
  the field.
\<close>

theorem newFieldReader_no_terms_counterexample:
  "newFieldReader (\<lambda>i. Inr exampleFST) exampleOwner exampleFieldInfo 0 [4] (-1) 1 1 0 None
     = Inl (Panic ''assert fail'')
   \<and> \<not> isCorruptIndexError (Panic ''assert fail'')
   \<and> \<not> mentionsField (Panic ''assert fail'') (name exampleFieldInfo)"
  by (simp add: newFieldReader_def)

lemma checkDirEntry_Some:
  "deDocCount d < 0 \<or> infoDocCount env < deDocCount d \<or> deSumDocFreq d < deDocCount d
     \<or> (deSumTotalTermFreq d \<noteq> -1 \<and> deSumTotalTermFreq d < deSumDocFreq d) \<Longrightarrow>
   \<exists>e. checkDirEntry env d = Some e \<and> isCorruptIndexError e
     \<and> e \<in> {InvalidDocCount (deDocCount d) (infoDocCount env),
              InvalidSumDocFreq (deSumDocFreq d) (deDocCount d),
              InvalidSumTotalTermFreq (deSumTotalTermFreq d) (deSumDocFreq d)}"
  by (auto simp: checkDirEntry_def)









text \<open>
  C7, at a field the reader does not hold. \<open>Terms\<close> of a reader that has loaded no field,
  asked for the field \<open>body\<close>, is not \<^verbatim>\<open>nil\<close>: it is a pointer to the zero \<^verbatim>\<open>FieldReader\<close>,
  which has no owner and no index.
\<close>

theorem Terms_absent_field_not_nil:
  "Terms exampleEmptyReader ''body'' = Some zeroFieldReader
   \<and> Terms exampleEmptyReader ''body'' \<noteq> None"
  by (simp add: Terms_def exampleEmptyReader_def)

section \<open>SeekExact without an index\<close>

text \<open>
  C10. On a cursor whose field reader has no index, \<open>SeekExact\<close> neither answers nor
  returns an error: it panics with \<open>terms index was not loaded\<close>, and the cursor is as it
  was before the call.
\<close>

theorem SeekExact_index_not_loaded:
  "index (fieldReader c) = None \<Longrightarrow>
     SeekExact target c = (Inl (Panic ''terms index was not loaded''), c)"
  by (simp add: SeekExact_def)

theorem SeekExact_index_not_loaded_witness:
  "index (fieldReader exampleCursorNoIndex) = None
   \<and> SeekExact [120] exampleCursorNoIndex
       = (Inl (Panic ''terms index was not loaded''), exampleCursorNoIndex)"
  using SeekExact_index_not_loaded [of exampleCursorNoIndex "[120]"]
  by (simp add: exampleCursorNoIndex_def freshCursor_def)

section \<open>SeekExact: the walk down the index\<close>



















lemmas example_defs = exampleCursor_def freshCursor_def exampleFieldReader_def exampleOwner_def
  exampleFST_def

lemma ReadVLongIgnoreErr_root_code: "fst (ReadVLongIgnoreErr (Reset [4])) = 4"
  by (simp add: ReadVLongIgnoreErr_def ReadVLong_root_code)

lemmas seek_defs = SeekExact_def seekPrepare_def printSeekState_def printSeekFrame_def
  frameCode_def ReadVLongIgnoreErr_root_code appendTerm_def resliceTerm_def
  seekStartFrom_def frameAt_def seekFresh_def seekReuse_def
  outputsAdd_def pushFrame_def pushFrameAt_def frame_def ReadVLong_root_code Let_def
  BTT_OUTPUT_FLAG_IS_FLOOR_def BTT_OUTPUT_FLAG_HAS_TERMS_def BTT_OUTPUT_FLAGS_NUM_BITS_def
  rewind_def descend.simps getArc_def seekFinish_def scanToFloorFrame_def newFrame_sel
  reuseLoop.simps cmpRest.simps indexOutOfRange_def

lemma example_fresh: "newSegmentTermsEnum exampleFieldReader = Inr exampleCursor"
  by (simp add: newSegmentTermsEnum_def example_defs)

lemma seek_x_fresh:
  "fst (SeekExact [120] exampleCursor) = Inr False"
  "eof (snd (SeekExact [120] exampleCursor)) = False"
  "curTerm (snd (SeekExact [120] exampleCursor)) = [120]"
  by (simp_all add: example_defs seek_defs)

lemma seek_x_after_x:
  "fst (SeekExact [120] (snd (SeekExact [120] exampleCursor))) = Inr False"
  "eof (snd (SeekExact [120] (snd (SeekExact [120] exampleCursor)))) = False"
  "curTerm (snd (SeekExact [120] (snd (SeekExact [120] exampleCursor)))) = [120, 120]"
  by (simp_all add: example_defs seek_defs)

lemma seek_ab_fresh:
  "fst (SeekExact [97, 98] exampleCursor) = Inl (Panic ''index out of range'')"
  by (simp add: example_defs seek_defs)

lemma seek_ab_after_x:
  "fst (SeekExact [97, 98] (snd (SeekExact [120] exampleCursor))) = Inr False"
  "eof (snd (SeekExact [97, 98] (snd (SeekExact [120] exampleCursor)))) = False"
  "curTerm (snd (SeekExact [97, 98] (snd (SeekExact [120] exampleCursor)))) = [97, 98]"
  by (simp_all add: example_defs seek_defs)

lemma descent_x_fresh:
  "\<exists>b. descentEndsOn [120] exampleCursor = Some b \<and> \<not> hasTerms b"
  by (simp add: descentEndsOn_def example_defs seek_defs)



text \<open>
  C3 does not hold of the code. On the cursor that \<open>newSegmentTermsEnum\<close> makes for the
  small index, the target \<open>x\<close> leaves the term \<open>x\<close>, and the same target sought again
  leaves \<open>xx\<close>: the fast path appends the label to the whole term instead of writing it
  at \<^verbatim>\<open>targetUpto\<close>. The target \<open>ab\<close> ends in a panic on the new cursor, where the term
  has no byte to write \<open>a\<close> to, and returns \<open>False\<close> with the term \<open>ab\<close> after the seek
  of \<open>x\<close>.
\<close>

theorem SeekExact_depends_on_prior_seeks:
  "newSegmentTermsEnum exampleFieldReader = Inr exampleCursor
   \<and> fst (SeekExact [120] exampleCursor) = Inr False
   \<and> Term (snd (SeekExact [120] exampleCursor)) = Inr [120]
   \<and> fst (SeekExact [120] (snd (SeekExact [120] exampleCursor))) = Inr False
   \<and> Term (snd (SeekExact [120] (snd (SeekExact [120] exampleCursor)))) = Inr [120, 120]
   \<and> fst (SeekExact [97, 98] exampleCursor) = Inl (Panic ''index out of range'')
   \<and> fst (SeekExact [97, 98] (snd (SeekExact [120] exampleCursor))) = Inr False
   \<and> Term (snd (SeekExact [97, 98] (snd (SeekExact [120] exampleCursor)))) = Inr [97, 98]"
  by (simp add: example_fresh seek_x_fresh seek_x_after_x seek_ab_fresh seek_ab_after_x Term_def)

end
